theory Spec2Isabelle
  imports Main "HOL-Library.Sublist"
begin

section \<open>The OCI remote loader of pkg/remote/oci.go\<close>

text \<open>
  A shallow embedding of \<^verbatim>\<open>pkg/remote/oci.go\<close>: the feature flag, \<^verbatim>\<open>Accept\<close>,
  \<^verbatim>\<open>Load\<close>, \<^verbatim>\<open>Dir\<close>, \<^verbatim>\<open>pullComposeFiles\<close>, \<^verbatim>\<open>writeComposeFile\<close> and
  \<^verbatim>\<open>writeEnvFile\<close>. Go strings and byte slices are \<open>string\<close> (a list of bytes).
  What the code does to its surroundings is explicit: the process environment, the
  file system and the log of Resolver calls are fields of a \<open>world\<close> record that every
  operation takes and returns; an error return is a value, and a Go panic is a result
  of its own.
\<close>

subsection \<open>Errors and results\<close>

type_synonym bytes = string

text \<open>The message of an error that a library outside this file returned.\<close>

type_synonym ext_error = string

datatype errno = ENOENT | ENOTDIR | EISDIR | EBADF

datatype error =
    ExpectsBoolean string
      \<comment> \<open>line 46: "... environment variable expects boolean value: %w", with the rejected text\<close>
  | DisabledBy string
      \<comment> \<open>line 77: "OCI remote resource is disabled by %q"\<close>
  | InitializingCache ext_error
      \<comment> \<open>line 104: "initializing remote resource cache: %w"\<close>
  | NotComposeArtifact string string
      \<comment> \<open>line 144: "%s is not a compose project OCI artifact, but %s"\<close>
  | MissingEnvfileAnnotation string
      \<comment> \<open>line 194: "missing annotation com.docker.compose.envfile in layer %q"\<close>
  | OsError errno
      \<comment> \<open>an error of package os, returned as it is\<close>
  | Foreign ext_error
      \<comment> \<open>an error of another library, returned as it is\<close>

text \<open>What a call of \<^verbatim>\<open>Load\<close> does: return a string and no error, return an error, or panic.\<close>

datatype 'a result = Ok 'a | Err error | Panic

subsection \<open>Package strings, strconv and path/filepath\<close>

definition strings_HasPrefix :: "string \<Rightarrow> string \<Rightarrow> bool" where
  "strings_HasPrefix s pre \<longleftrightarrow> length s \<ge> length pre \<and> take (length pre) s = pre"

text \<open>\<^verbatim>\<open>strconv.ParseBool\<close>: the twelve accepted spellings; anything else is a syntax error.\<close>

definition strconv_ParseBool :: "string \<Rightarrow> string + bool" where
  "strconv_ParseBool str =
     (if str \<in> set [''1'', ''t'', ''T'', ''true'', ''TRUE'', ''True''] then Inr True
      else if str \<in> set [''0'', ''f'', ''F'', ''false'', ''FALSE'', ''False''] then Inr False
      else Inl str)"

text \<open>\<^verbatim>\<open>strings.Split(s, "/")\<close>.\<close>

fun split_slash :: "string \<Rightarrow> string list" where
  "split_slash [] = [[]]"
| "split_slash (c # cs) =
     (if c = CHR ''/'' then [] # split_slash cs
      else (case split_slash cs of [] \<Rightarrow> [[c]] | x # xs \<Rightarrow> (c # x) # xs))"

fun join_slash :: "string list \<Rightarrow> string" where
  "join_slash [] = []"
| "join_slash [x] = x"
| "join_slash (x # y # ys) = x @ ''/'' @ join_slash (y # ys)"

text \<open>
  \<^verbatim>\<open>filepath.Clean\<close> on a Unix path. The elements kept so far are a stack: an empty
  element and \<^verbatim>\<open>.\<close> are dropped; \<^verbatim>\<open>..\<close> removes the element before it, is dropped at
  the root of a rooted path, and is kept at the start of a relative one.
\<close>

definition clean_step :: "bool \<Rightarrow> string list \<Rightarrow> string \<Rightarrow> string list" where
  "clean_step rooted st c =
     (if c = [] \<or> c = ''.'' then st
      else if c = ''..'' then
        (if st \<noteq> [] \<and> last st \<noteq> ''..'' then butlast st
         else if rooted then st
         else st @ [''..''])
      else st @ [c])"

definition filepath_Clean :: "string \<Rightarrow> string" where
  "filepath_Clean p =
     (let rooted = (p \<noteq> [] \<and> hd p = CHR ''/'');
          st = foldl (clean_step rooted) [] (split_slash p)
      in if rooted then CHR ''/'' # join_slash st
         else if st = [] then ''.''
         else join_slash st)"

text \<open>\<^verbatim>\<open>filepath.Join\<close> of two elements: cleaned from the first non-empty element on.\<close>

definition filepath_Join :: "string \<Rightarrow> string \<Rightarrow> string" where
  "filepath_Join a b =
     (if a \<noteq> [] then filepath_Clean (a @ ''/'' @ b)
      else if b \<noteq> [] then filepath_Clean b
      else [])"

subsection \<open>The file system and package os\<close>

text \<open>
  A file system without links and without permissions: a node is a regular file with
  its bytes or a directory, and a node is named by the list of path elements from the
  root, which is always a directory. A path string is resolved against the working
  directory as the kernel does it, element by element.
\<close>

type_synonym path = "string list"

datatype node = File bytes | Directory

type_synonym filesystem = "path \<rightharpoonup> node"

definition resolve_step :: "path \<Rightarrow> string \<Rightarrow> path" where
  "resolve_step p c =
     (if c = [] \<or> c = ''.'' then p
      else if c = ''..'' then butlast p
      else p @ [c])"

definition resolve :: "path \<Rightarrow> string \<Rightarrow> path" where
  "resolve cwd s =
     foldl resolve_step (if s \<noteq> [] \<and> hd s = CHR ''/'' then [] else cwd) (split_slash s)"

text \<open>
  Looking a path up from a directory \<open>cur\<close> that exists: an element that is missing is
  \<^verbatim>\<open>ENOENT\<close>, an element below a regular file is \<^verbatim>\<open>ENOTDIR\<close>.
\<close>

fun walk :: "filesystem \<Rightarrow> path \<Rightarrow> string list \<Rightarrow> errno + node" where
  "walk fs cur [] = Inr Directory"
| "walk fs cur [c] = (case fs (cur @ [c]) of None \<Rightarrow> Inl ENOENT | Some n \<Rightarrow> Inr n)"
| "walk fs cur (c # d # cs) =
     (case fs (cur @ [c]) of
        None \<Rightarrow> Inl ENOENT
      | Some (File _) \<Rightarrow> Inl ENOTDIR
      | Some Directory \<Rightarrow> walk fs (cur @ [c]) (d # cs))"

definition os_Stat :: "filesystem \<Rightarrow> path \<Rightarrow> errno + node" where
  "os_Stat fs p = walk fs [] p"

text \<open>\<^verbatim>\<open>os.IsNotExist\<close> of the error of a call: true for \<^verbatim>\<open>ENOENT\<close> only.\<close>

definition os_IsNotExist :: "errno + 'a \<Rightarrow> bool" where
  "os_IsNotExist r \<longleftrightarrow> r = Inl ENOENT"

text \<open>
  \<^verbatim>\<open>os.MkdirAll\<close>: every missing directory on the way is created; a regular file
  on the way is \<^verbatim>\<open>ENOTDIR\<close>; a directory that exists is left alone.
\<close>

fun mkdir_from :: "filesystem \<Rightarrow> path \<Rightarrow> string list \<Rightarrow> errno + filesystem" where
  "mkdir_from fs cur [] = Inr fs"
| "mkdir_from fs cur (c # cs) =
     (case fs (cur @ [c]) of
        None \<Rightarrow> mkdir_from (fs(cur @ [c] \<mapsto> Directory)) (cur @ [c]) cs
      | Some Directory \<Rightarrow> mkdir_from fs (cur @ [c]) cs
      | Some (File _) \<Rightarrow> Inl ENOTDIR)"

definition os_MkdirAll :: "filesystem \<Rightarrow> path \<Rightarrow> errno + filesystem" where
  "os_MkdirAll fs p = mkdir_from fs [] p"

text \<open>An open \<^verbatim>\<open>*os.File\<close>: the node it was opened on and its write offset.\<close>

type_synonym os_File = "path \<times> nat"

text \<open>
  \<^verbatim>\<open>os.Create\<close>: the parent must be a directory that exists and the name must not be
  a directory; the file is created, or truncated when it exists, and opened at offset 0.
\<close>

definition os_Create :: "filesystem \<Rightarrow> path \<Rightarrow> errno + (filesystem \<times> os_File)" where
  "os_Create fs p =
     (if p = [] then Inl EISDIR
      else (case walk fs [] (butlast p) of
              Inl e \<Rightarrow> Inl e
            | Inr (File _) \<Rightarrow> Inl ENOTDIR
            | Inr Directory \<Rightarrow>
                (if fs p = Some Directory then Inl EISDIR
                 else Inr (fs(p \<mapsto> File []), (p, 0))))) "

text \<open>
  Writing \<open>data\<close> at offset \<open>off\<close> of the bytes \<open>old\<close>: a gap between the end of the
  file and the offset reads as zero bytes.
\<close>

definition write_at :: "bytes \<Rightarrow> nat \<Rightarrow> bytes \<Rightarrow> bytes" where
  "write_at old off data =
     take off (old @ replicate (off - length old) (CHR 0x00)) @ data
       @ drop (off + length data) old"

text \<open>
  \<^verbatim>\<open>(*os.File).Write\<close>: the bytes go to the file at the offset of the handle, which
  moves on. A write never runs out of space here; it fails only when the handle names
  no regular file.
\<close>

definition file_Write :: "filesystem \<Rightarrow> os_File \<Rightarrow> bytes \<Rightarrow> errno + (filesystem \<times> os_File)" where
  "file_Write fs f data =
     (case fs (fst f) of
        Some (File old) \<Rightarrow>
          Inr (fs(fst f \<mapsto> File (write_at old (snd f) data)), (fst f, snd f + length data))
      | _ \<Rightarrow> Inl EBADF)"

text \<open>\<^verbatim>\<open>os.RemoveAll\<close>: the node and everything below it are gone.\<close>

definition os_RemoveAll :: "filesystem \<Rightarrow> path \<Rightarrow> filesystem" where
  "os_RemoveAll fs p = (\<lambda>q. if prefix p q then None else fs q)"

definition os_Getenv :: "(string \<rightharpoonup> string) \<Rightarrow> string \<Rightarrow> string" where
  "os_Getenv env k = (case env k of None \<Rightarrow> [] | Some v \<Rightarrow> v)"

subsection \<open>Manifests, the libraries and the world\<close>

text \<open>The fields of \<^verbatim>\<open>v1.Descriptor\<close> and \<^verbatim>\<open>v1.Manifest\<close> that the code reads.\<close>

record descriptor =
  MediaType :: string
  Digest :: string
  Annotations :: "string \<rightharpoonup> string"

record manifest =
  ArtifactType :: string
  Config :: descriptor
  Layers :: "descriptor list"

text \<open>Indexing a Go map: the zero value, the empty string, for a key that is absent.\<close>

definition annotation :: "descriptor \<Rightarrow> string \<Rightarrow> string" where
  "annotation layer k = (case Annotations layer k of None \<Rightarrow> [] | Some v \<Rightarrow> v)"

text \<open>
  The Resolver capability \<^verbatim>\<open>Get(ctx, ref)\<close>: the bytes and the descriptor of a
  reference string, or an error.
\<close>

type_synonym resolver = "string \<Rightarrow> ext_error + (bytes \<times> descriptor)"

text \<open>
  What the code takes from outside this file. The four media-type constants of
  package \<^verbatim>\<open>ocipush\<close> are parameters, and so are the library functions whose results
  the code only passes on: \<^verbatim>\<open>reference.ParseDockerRef\<close> and \<^verbatim>\<open>reference.WithDigest\<close>
  (a parsed reference is held as its \<^verbatim>\<open>String()\<close>), \<^verbatim>\<open>json.Unmarshal\<close> into a
  manifest, and \<^verbatim>\<open>Digest.Hex\<close>.
\<close>

record libs =
  ComposeProjectArtifactType :: string
  ComposeYAMLMediaType :: string
  ComposeEnvFileMediaType :: string
  ComposeEmptyConfigMediaType :: string
  ParseDockerRef :: "string \<Rightarrow> ext_error + string"
  WithDigest :: "string \<Rightarrow> string \<Rightarrow> ext_error + string"
  Unmarshal :: "bytes \<Rightarrow> ext_error + manifest"
  Hex :: "string \<Rightarrow> string"

text \<open>
  The state outside the loader: the environment variables, the file system, the
  working directory, the result of \<^verbatim>\<open>cacheDir()\<close> (a function of this package that
  is defined in another file; only what it returns is taken from it), and the
  reference strings the Resolver was asked for, oldest first. The \<^verbatim>\<open>context.Context\<close>
  is only handed on to the Resolver and has no counterpart here: a cancelled call is an
  error of the Resolver.
\<close>

record world =
  environ :: "string \<rightharpoonup> string"
  fs :: filesystem
  cwd :: path
  cacheDir :: "ext_error + string"
  fetched :: "string list"

text \<open>
  The loader. \<open>dockerCli\<close> is held as what \<^verbatim>\<open>storeutil.GetImageConfig\<close> makes of it:
  an error, or the options from which \<^verbatim>\<open>imagetools.New\<close> builds the Resolver. \<open>known\<close>
  is a Go map, shared by every copy of the struct, so that the entry \<^verbatim>\<open>Load\<close> stores
  through its value receiver is seen by the caller: \<open>Load\<close> returns the loader with
  the new table.
\<close>

record ociRemoteLoader =
  dockerCli :: "ext_error + resolver"
  offline :: bool
  known :: "string \<rightharpoonup> string"

subsection \<open>The code\<close>

definition OCI_REMOTE_ENABLED :: string where
  "OCI_REMOTE_ENABLED = ''COMPOSE_EXPERIMENTAL_OCI_REMOTE''"

definition OciPrefix :: string where
  "OciPrefix = ''oci://''"

definition ociRemoteLoaderEnabled :: "(string \<rightharpoonup> string) \<Rightarrow> error + bool" where
  "ociRemoteLoaderEnabled env =
     (let v = os_Getenv env OCI_REMOTE_ENABLED in
      if v \<noteq> [] then
        (case strconv_ParseBool v of
           Inl bad \<Rightarrow> Inl (ExpectsBoolean bad)
         | Inr enabled \<Rightarrow> Inr enabled)
      else Inr True)"

definition NewOCIRemoteLoader :: "(ext_error + resolver) \<Rightarrow> bool \<Rightarrow> ociRemoteLoader" where
  "NewOCIRemoteLoader cli off = \<lparr>dockerCli = cli, offline = off, known = Map.empty\<rparr>"

definition Accept :: "string \<Rightarrow> bool" where
  "Accept path = strings_HasPrefix path OciPrefix"

definition Dir :: "ociRemoteLoader \<Rightarrow> string \<Rightarrow> string" where
  "Dir g path = (case known g path of None \<Rightarrow> [] | Some local \<Rightarrow> local)"

definition separator :: bytes where
  "separator = [CHR 0x0A, CHR ''-'', CHR ''-'', CHR ''-'', CHR 0x0A]"

definition writeComposeFile ::
  "descriptor \<Rightarrow> nat \<Rightarrow> os_File \<Rightarrow> bytes \<Rightarrow> filesystem \<Rightarrow> errno + (filesystem \<times> os_File)" where
  "writeComposeFile layer i f content fs0 =
     (if i > 0 \<and> Annotations layer ''com.docker.compose.file'' \<noteq> None then
        (case file_Write fs0 f separator of
           Inl e \<Rightarrow> Inl e
         | Inr (fs1, f1) \<Rightarrow> file_Write fs1 f1 content)
      else file_Write fs0 f content)"

definition writeEnvFile ::
  "path \<Rightarrow> descriptor \<Rightarrow> string \<Rightarrow> bytes \<Rightarrow> filesystem \<Rightarrow> error + filesystem" where
  "writeEnvFile wd layer local content fs0 =
     (case Annotations layer ''com.docker.compose.envfile'' of
        None \<Rightarrow> Inl (MissingEnvfileAnnotation (Digest layer))
      | Some envfilePath \<Rightarrow>
          (case os_Create fs0 (resolve wd (filepath_Join local envfilePath)) of
             Inl e \<Rightarrow> Inl (OsError e)
           | Inr (fs1, otherFile) \<Rightarrow>
               (case file_Write fs1 otherFile content of
                  Inl e \<Rightarrow> Inl (OsError e)
                | Inr (fs2, _) \<Rightarrow> Inr fs2)))"

text \<open>
  The loop of \<^verbatim>\<open>pullComposeFiles\<close> over the layers that remain, \<open>i\<close> the position of
  the first of them and \<open>f\<close> the open primary file. The result is the error, if any,
  and the world as the loop left it.
\<close>

fun pull_layers ::
  "libs \<Rightarrow> resolver \<Rightarrow> string \<Rightarrow> string \<Rightarrow> os_File \<Rightarrow> nat \<Rightarrow> descriptor list \<Rightarrow> world
     \<Rightarrow> error option \<times> world" where
  "pull_layers x get local ref f i [] w = (None, w)"
| "pull_layers x get local ref f i (layer # rest) w =
     (case WithDigest x ref (Digest layer) of
        Inl e \<Rightarrow> (Some (Foreign e), w)
      | Inr digested \<Rightarrow>
          (let w1 = w\<lparr>fetched := fetched w @ [digested]\<rparr> in
           case get digested of
             Inl e \<Rightarrow> (Some (Foreign e), w1)
           | Inr (content, _) \<Rightarrow>
               (if MediaType layer = ComposeYAMLMediaType x then
                  (if Annotations layer ''com.docker.compose.extends'' \<noteq> None then
                     (case os_Create (fs w1)
                             (resolve (cwd w1)
                               (filepath_Join local (annotation layer ''com.docker.compose.file''))) of
                        Inl e \<Rightarrow> (Some (OsError e), w1)
                      | Inr (fs1, target) \<Rightarrow>
                          (case writeComposeFile layer i target content fs1 of
                             Inl e \<Rightarrow> (Some (OsError e), w1\<lparr>fs := fs1\<rparr>)
                           | Inr (fs2, _) \<Rightarrow>
                               pull_layers x get local ref f (Suc i) rest (w1\<lparr>fs := fs2\<rparr>)))
                   else
                     (case writeComposeFile layer i f content (fs w1) of
                        Inl e \<Rightarrow> (Some (OsError e), w1)
                      | Inr (fs2, f') \<Rightarrow>
                          pull_layers x get local ref f' (Suc i) rest (w1\<lparr>fs := fs2\<rparr>)))
                else if MediaType layer = ComposeEnvFileMediaType x then
                  (case writeEnvFile (cwd w1) layer local content (fs w1) of
                     Inl e \<Rightarrow> (Some e, w1)
                   | Inr fs2 \<Rightarrow> pull_layers x get local ref f (Suc i) rest (w1\<lparr>fs := fs2\<rparr>))
                else if MediaType layer = ComposeEmptyConfigMediaType x then
                  pull_layers x get local ref f (Suc i) rest w1
                else pull_layers x get local ref f (Suc i) rest w1)))"

definition pullComposeFiles ::
  "libs \<Rightarrow> resolver \<Rightarrow> string \<Rightarrow> manifest \<Rightarrow> string \<Rightarrow> world \<Rightarrow> error option \<times> world" where
  "pullComposeFiles x get local m ref w =
     (case os_MkdirAll (fs w) (resolve (cwd w) local) of
        Inl e \<Rightarrow> (Some (OsError e), w)
      | Inr fs1 \<Rightarrow>
          (let composeFile = filepath_Join local ''compose.yaml'' in
           case os_Create fs1 (resolve (cwd w) composeFile) of
             Inl e \<Rightarrow> (Some (OsError e), w\<lparr>fs := fs1\<rparr>)
           | Inr (fs2, f) \<Rightarrow>
               (if (ArtifactType m \<noteq> [] \<and> ArtifactType m \<noteq> ComposeProjectArtifactType x)
                    \<or> (ArtifactType m = []
                         \<and> MediaType (Config m) \<noteq> ComposeEmptyConfigMediaType x)
                then (Some (NotComposeArtifact ref (ArtifactType m)), w\<lparr>fs := fs2\<rparr>)
                else pull_layers x get local ref f 0 (Layers m) (w\<lparr>fs := fs2\<rparr>))))"

definition Load ::
  "libs \<Rightarrow> ociRemoteLoader \<Rightarrow> world \<Rightarrow> string \<Rightarrow> string result \<times> ociRemoteLoader \<times> world" where
  "Load x g w path =
     (case ociRemoteLoaderEnabled (environ w) of
        Inl err \<Rightarrow> (Err err, g, w)
      | Inr enabled \<Rightarrow>
          if \<not> enabled then (Err (DisabledBy OCI_REMOTE_ENABLED), g, w)
          else if offline g then (Ok [], g, w)
          else
            (case known g path of
               Some local \<Rightarrow> (Ok (filepath_Join local ''compose.yaml''), g, w)
             | None \<Rightarrow>
                 if length path < length OciPrefix then (Panic, g, w)
                 else
                   (case ParseDockerRef x (drop (length OciPrefix) path) of
                      Inl e \<Rightarrow> (Err (Foreign e), g, w)
                    | Inr ref \<Rightarrow>
                        (case dockerCli g of
                           Inl e \<Rightarrow> (Err (Foreign e), g, w)
                         | Inr get \<Rightarrow>
                             (let w1 = w\<lparr>fetched := fetched w @ [ref]\<rparr> in
                              case get ref of
                                Inl e \<Rightarrow> (Err (Foreign e), g, w1)
                              | Inr (content, desc) \<Rightarrow>
                                  (case cacheDir w1 of
                                     Inl e \<Rightarrow> (Err (InitializingCache e), g, w1)
                                   | Inr cache \<Rightarrow>
                                       (let local = filepath_Join cache (Hex x (Digest desc)) in
                                        if os_IsNotExist (os_Stat (fs w1) (resolve (cwd w1) local))
                                        then
                                          (case Unmarshal x content of
                                             Inl e \<Rightarrow> (Err (Foreign e), g, w1)
                                           | Inr m \<Rightarrow>
                                               (case pullComposeFiles x get local m ref w1 of
                                                  (Some err, w2) \<Rightarrow>
                                                    (Err err, g,
                                                     w2\<lparr>fs := os_RemoveAll (fs w2)
                                                                (resolve (cwd w2) local)\<rparr>)
                                                | (None, w2) \<Rightarrow>
                                                    (Ok (filepath_Join local ''compose.yaml''),
                                                     g\<lparr>known := (known g)(path \<mapsto> local)\<rparr>, w2)))
                                        else
                                          (Ok (filepath_Join local ''compose.yaml''),
                                           g\<lparr>known := (known g)(path \<mapsto> local)\<rparr>, w1))))))))"

subsection \<open>A registry, a manifest and a world to run the code on\<close>

text \<open>
  Concrete inputs for the examples below: a registry that serves one compose project
  \<^verbatim>\<open>acme/app\<close> and one artifact \<^verbatim>\<open>acme/chart\<close> of another kind, the layers of the
  project, and an empty file system with the cache at \<^verbatim>\<open>/cache\<close>.
\<close>

definition ex_yaml :: string where
  "ex_yaml = ''application/vnd.docker.compose.file+yaml''"

definition ex_envfile :: string where
  "ex_envfile = ''application/vnd.docker.compose.envfile''"

definition ex_project :: string where
  "ex_project = ''application/vnd.docker.compose.project''"

definition ex_empty :: string where
  "ex_empty = ''application/vnd.docker.compose.config.empty.v1+json''"

definition ex_base :: descriptor where
  "ex_base = \<lparr>MediaType = ex_yaml, Digest = ''sha256:01'',
               Annotations = [''com.docker.compose.file'' \<mapsto> ''compose.yaml'']\<rparr>"

definition ex_override :: descriptor where
  "ex_override = \<lparr>MediaType = ex_yaml, Digest = ''sha256:02'',
                   Annotations = [''com.docker.compose.file'' \<mapsto> ''compose.override.yaml'']\<rparr>"

definition ex_extends :: descriptor where
  "ex_extends = \<lparr>MediaType = ex_yaml, Digest = ''sha256:02'',
                  Annotations = [''com.docker.compose.file'' \<mapsto> ''base.yaml'',
                                 ''com.docker.compose.extends'' \<mapsto> ''true'']\<rparr>"

definition ex_env :: "string \<Rightarrow> descriptor" where
  "ex_env name = \<lparr>MediaType = ex_envfile, Digest = ''sha256:03'',
                   Annotations = [''com.docker.compose.envfile'' \<mapsto> name]\<rparr>"

definition ex_env_bare :: "string \<Rightarrow> descriptor" where
  "ex_env_bare d = \<lparr>MediaType = ex_envfile, Digest = d, Annotations = Map.empty\<rparr>"

definition ex_other :: "string \<Rightarrow> descriptor" where
  "ex_other d = \<lparr>MediaType = ''application/octet-stream'', Digest = d,
                  Annotations = Map.empty\<rparr>"

definition ex_config :: descriptor where
  "ex_config = \<lparr>MediaType = ex_empty, Digest = ''sha256:00'', Annotations = Map.empty\<rparr>"

definition ex_manifest :: "descriptor list \<Rightarrow> manifest" where
  "ex_manifest ls = \<lparr>ArtifactType = ex_project, Config = ex_config, Layers = ls\<rparr>"

definition ex_chart :: manifest where
  "ex_chart = \<lparr>ArtifactType = ''application/vnd.acme.chart'', Config = ex_config, Layers = []\<rparr>"

definition ex_libs :: libs where
  "ex_libs =
     \<lparr>ComposeProjectArtifactType = ex_project,
      ComposeYAMLMediaType = ex_yaml,
      ComposeEnvFileMediaType = ex_envfile,
      ComposeEmptyConfigMediaType = ex_empty,
      ParseDockerRef = (\<lambda>s. if s = [] then Inl ''invalid reference format'' else Inr s),
      WithDigest = (\<lambda>r d. Inr (r @ ''@'' @ d)),
      Unmarshal = (\<lambda>b. if b = ''{app}'' then Inr (ex_manifest [ex_base, ex_override])
                        else if b = ''{chart}'' then Inr ex_chart
                        else Inl ''invalid character''),
      Hex = drop 7\<rparr>"

definition ex_get :: resolver where
  "ex_get r =
     (if r = ''acme/app'' then Inr (''{app}'', ex_config\<lparr>Digest := ''sha256:aa''\<rparr>)
      else if r = ''acme/chart'' then Inr (''{chart}'', ex_config\<lparr>Digest := ''sha256:bb''\<rparr>)
      else if r = ''acme/app@sha256:01'' then Inr (''services: {}'', ex_base)
      else if r = ''acme/app@sha256:02'' then Inr (''volumes: {}'', ex_override)
      else if r = ''acme/app@sha256:03'' then Inr (''KEY=1'', ex_env ''app.env'')
      else Inl ''not found'')"

definition ex_world :: "(string \<rightharpoonup> string) \<Rightarrow> world" where
  "ex_world env =
     \<lparr>environ = env, fs = Map.empty, cwd = [], cacheDir = Inr ''/cache'', fetched = []\<rparr>"

definition ex_loader :: "bool \<Rightarrow> ociRemoteLoader" where
  "ex_loader off = NewOCIRemoteLoader (Inr ex_get) off"

text \<open>The same world once the directory \<^verbatim>\<open>/cache/aa\<close> exists and is empty.\<close>

definition ex_ready :: world where
  "ex_ready =
     \<lparr>environ = Map.empty, fs = [[''cache''] \<mapsto> Directory, [''cache'', ''aa''] \<mapsto> Directory], cwd = [],
      cacheDir = Inr ''/cache'', fetched = []\<rparr>"

text \<open>
  The loader and the world after \<^verbatim>\<open>oci://acme/app\<close> has been loaded once from
  \<open>ex_world Map.empty\<close>, and the world after a failed load of \<^verbatim>\<open>oci://acme/chart\<close>.
\<close>

definition ex_loaded :: ociRemoteLoader where
  "ex_loaded = (ex_loader False)\<lparr>known := [''oci://acme/app'' \<mapsto> ''/cache/aa'']\<rparr>"

definition ex_loaded_world :: world where
  "ex_loaded_world =
     \<lparr>environ = Map.empty,
      fs = [[''cache''] \<mapsto> Directory, [''cache'', ''aa''] \<mapsto> Directory,
            [''cache'', ''aa'', ''compose.yaml'']
              \<mapsto> File (''services: {}'' @ separator @ ''volumes: {}'')],
      cwd = [], cacheDir = Inr ''/cache'',
      fetched = [''acme/app'', ''acme/app@sha256:01'', ''acme/app@sha256:02'']\<rparr>"

definition ex_failed_pull :: world where
  "ex_failed_pull =
     \<lparr>environ = Map.empty,
      fs = [[''cache''] \<mapsto> Directory, [''cache'', ''bb''] \<mapsto> Directory,
            [''cache'', ''bb'', ''compose.yaml''] \<mapsto> File []],
      cwd = [], cacheDir = Inr ''/cache'', fetched = [''acme/chart'']\<rparr>"

text \<open>
  Two worlds in which the target \<^verbatim>\<open>/cache/aa\<close> is not a directory and yet \<^verbatim>\<open>Stat\<close>
  does not say that it is missing: a regular file stands at \<^verbatim>\<open>/cache/aa\<close>, or the
  cache root \<^verbatim>\<open>/cache\<close> is itself a regular file.
\<close>

definition ex_occupied :: world where
  "ex_occupied =
     \<lparr>environ = Map.empty,
      fs = [[''cache''] \<mapsto> Directory, [''cache'', ''aa''] \<mapsto> File ''junk''],
      cwd = [], cacheDir = Inr ''/cache'', fetched = []\<rparr>"

definition ex_no_cache :: world where
  "ex_no_cache =
     \<lparr>environ = Map.empty, fs = [[''cache''] \<mapsto> File ''junk''],
      cwd = [], cacheDir = Inr ''/cache'', fetched = []\<rparr>"

section \<open>The feature flag, offline mode and the scheme prefix\<close>

lemma enabled_when_unset:
  "env OCI_REMOTE_ENABLED = None \<or> env OCI_REMOTE_ENABLED = Some []
     \<Longrightarrow> ociRemoteLoaderEnabled env = Inr True"
  by (auto simp: ociRemoteLoaderEnabled_def os_Getenv_def)

lemma enabled_invalid:
  assumes "env OCI_REMOTE_ENABLED = Some v" and "v \<noteq> []" and "strconv_ParseBool v = Inl b"
  shows "ociRemoteLoaderEnabled env = Inl (ExpectsBoolean v)"
proof -
  from assms(3) have "b = v"
    by (simp add: strconv_ParseBool_def split: if_splits)
  with assms show ?thesis
    by (simp add: ociRemoteLoaderEnabled_def os_Getenv_def)
qed

lemma enabled_false:
  assumes "env OCI_REMOTE_ENABLED = Some v" and "strconv_ParseBool v = Inr False"
  shows "ociRemoteLoaderEnabled env = Inr False"
proof -
  from assms(2) have "v \<noteq> []"
    by (auto simp: strconv_ParseBool_def split: if_splits)
  with assms show ?thesis
    by (simp add: ociRemoteLoaderEnabled_def os_Getenv_def)
qed

lemma Load_flag_error:
  "ociRemoteLoaderEnabled (environ w) = Inl e \<Longrightarrow> Load x g w path = (Err e, g, w)"
  by (simp add: Load_def)

lemma Load_disabled:
  "ociRemoteLoaderEnabled (environ w) = Inr False
     \<Longrightarrow> Load x g w path = (Err (DisabledBy OCI_REMOTE_ENABLED), g, w)"
  by (simp add: Load_def)

lemma ex_flag_false:
  "ociRemoteLoaderEnabled [OCI_REMOTE_ENABLED \<mapsto> ''false''] = Inr False"
  by (simp add: ociRemoteLoaderEnabled_def os_Getenv_def strconv_ParseBool_def)

lemma ex_flag_unset: "ociRemoteLoaderEnabled Map.empty = Inr True"
  by (simp add: ociRemoteLoaderEnabled_def os_Getenv_def)

lemma ex_accept: "Accept ''oci://acme/app''"
  by (simp add: Accept_def strings_HasPrefix_def OciPrefix_def)

text \<open>
  C1, as the claim states it, fails: the feature flag is read before the offline
  switch (lines 72 to 82). With the variable set to \<^verbatim>\<open>false\<close>, an offline loader
  returns the "disabled" error for an accepted path, not the empty string.
\<close>

theorem C1_offline_counterexample:
  "Accept ''oci://acme/app'' \<and> offline (ex_loader True)
   \<and> fst (Load ex_libs (ex_loader True) (ex_world [OCI_REMOTE_ENABLED \<mapsto> ''false''])
            ''oci://acme/app'')
      = Err (DisabledBy ''COMPOSE_EXPERIMENTAL_OCI_REMOTE'')
   \<and> fst (Load ex_libs (ex_loader True) (ex_world [OCI_REMOTE_ENABLED \<mapsto> ''false''])
            ''oci://acme/app'')
      \<noteq> Ok []"
proof -
  have "ociRemoteLoaderEnabled (environ (ex_world [OCI_REMOTE_ENABLED \<mapsto> ''false''])) = Inr False"
    by (simp add: ex_world_def ex_flag_false)
  then have "Load ex_libs (ex_loader True) (ex_world [OCI_REMOTE_ENABLED \<mapsto> ''false''])
               ''oci://acme/app''
             = (Err (DisabledBy OCI_REMOTE_ENABLED), ex_loader True,
                ex_world [OCI_REMOTE_ENABLED \<mapsto> ''false''])"
    by (rule Load_disabled)
  then show ?thesis
    by (simp add: ex_accept ex_loader_def NewOCIRemoteLoader_def OCI_REMOTE_ENABLED_def)
qed

text \<open>
  C1, amended: if the loader is in offline mode and the feature flag is enabled (the
  variable is unset, empty, or parses to true), \<open>Load\<close> returns the empty string and
  no error for every path, and leaves the loader and the world as they were: the
  Resolver is not asked and nothing is written.
\<close>

theorem C1_offline:
  assumes "offline g" and "ociRemoteLoaderEnabled (environ w) = Inr True"
  shows "Load x g w path = (Ok [], g, w)"
  using assms by (simp add: Load_def)

theorem C1_offline_witness:
  "offline (ex_loader True)
   \<and> ociRemoteLoaderEnabled (environ (ex_world Map.empty)) = Inr True
   \<and> Load ex_libs (ex_loader True) (ex_world Map.empty) ''oci://acme/app''
       = (Ok [], ex_loader True, ex_world Map.empty)"
proof -
  have off: "offline (ex_loader True)"
    by (simp add: ex_loader_def NewOCIRemoteLoader_def)
  have en: "ociRemoteLoaderEnabled (environ (ex_world Map.empty)) = Inr True"
    by (simp add: ex_world_def ex_flag_unset)
  show ?thesis
    using off en C1_offline [OF off en, of ex_libs "''oci://acme/app''"] by simp
qed

text \<open>
  C7, as the claim states it, fails for one value: \<^verbatim>\<open>os.Getenv\<close> does not tell a
  variable that is set to the empty string from one that is unset (line 43). The empty
  string is no valid boolean for \<^verbatim>\<open>strconv.ParseBool\<close>, yet the loader is enabled and
  \<open>Load\<close> does not fail.
\<close>

theorem C7_feature_flag_counterexample:
  "environ (ex_world [OCI_REMOTE_ENABLED \<mapsto> '''']) OCI_REMOTE_ENABLED = Some ''''
   \<and> strconv_ParseBool '''' = Inl ''''
   \<and> ociRemoteLoaderEnabled (environ (ex_world [OCI_REMOTE_ENABLED \<mapsto> ''''])) = Inr True
   \<and> fst (Load ex_libs (ex_loader True) (ex_world [OCI_REMOTE_ENABLED \<mapsto> ''''])
            ''oci://acme/app'') = Ok []"
  by (simp add: ex_world_def strconv_ParseBool_def ociRemoteLoaderEnabled_def os_Getenv_def
      Load_def ex_loader_def NewOCIRemoteLoader_def)

text \<open>
  C7, amended: if the variable is unset or set to the empty string, the loader is
  enabled; if it is set to a non-empty string that is not a valid boolean
  representation, \<open>Load\<close> fails with the configuration error; if it parses to false,
  \<open>Load\<close> fails with the error that names the variable. In both failures the loader
  and the world are unchanged.
\<close>

theorem C7_feature_flag:
  "(environ w OCI_REMOTE_ENABLED = None \<or> environ w OCI_REMOTE_ENABLED = Some []
      \<longrightarrow> ociRemoteLoaderEnabled (environ w) = Inr True)
   \<and> (environ w OCI_REMOTE_ENABLED = Some v \<and> v \<noteq> [] \<and> strconv_ParseBool v = Inl b
      \<longrightarrow> Load x g w path = (Err (ExpectsBoolean v), g, w))
   \<and> (environ w OCI_REMOTE_ENABLED = Some v \<and> strconv_ParseBool v = Inr False
      \<longrightarrow> Load x g w path = (Err (DisabledBy OCI_REMOTE_ENABLED), g, w))"
  using enabled_when_unset [of "environ w"] enabled_invalid [of "environ w" v b]
    enabled_false [of "environ w" v] Load_flag_error [of w "ExpectsBoolean v" x g path]
    Load_disabled [of w x g path]
  by blast

theorem C7_feature_flag_witness:
  "environ (ex_world Map.empty) OCI_REMOTE_ENABLED = None
   \<and> ociRemoteLoaderEnabled (environ (ex_world Map.empty)) = Inr True
   \<and> environ (ex_world [OCI_REMOTE_ENABLED \<mapsto> ''yes'']) OCI_REMOTE_ENABLED = Some ''yes''
   \<and> strconv_ParseBool ''yes'' = Inl ''yes''
   \<and> Load ex_libs (ex_loader False) (ex_world [OCI_REMOTE_ENABLED \<mapsto> ''yes'']) ''oci://acme/app''
       = (Err (ExpectsBoolean ''yes''), ex_loader False, ex_world [OCI_REMOTE_ENABLED \<mapsto> ''yes''])
   \<and> environ (ex_world [OCI_REMOTE_ENABLED \<mapsto> ''0'']) OCI_REMOTE_ENABLED = Some ''0''
   \<and> strconv_ParseBool ''0'' = Inr False
   \<and> Load ex_libs (ex_loader False) (ex_world [OCI_REMOTE_ENABLED \<mapsto> ''0'']) ''oci://acme/app''
       = (Err (DisabledBy OCI_REMOTE_ENABLED), ex_loader False, ex_world [OCI_REMOTE_ENABLED \<mapsto> ''0''])"
proof -
  have a: "environ (ex_world Map.empty) OCI_REMOTE_ENABLED = None"
    by (simp add: ex_world_def)
  have b: "environ (ex_world [OCI_REMOTE_ENABLED \<mapsto> ''yes'']) OCI_REMOTE_ENABLED = Some ''yes''"
    by (simp add: ex_world_def)
  have b': "strconv_ParseBool ''yes'' = Inl ''yes''"
    by (simp add: strconv_ParseBool_def)
  have c: "environ (ex_world [OCI_REMOTE_ENABLED \<mapsto> ''0'']) OCI_REMOTE_ENABLED = Some ''0''"
    by (simp add: ex_world_def)
  have c': "strconv_ParseBool ''0'' = Inr False"
    by (simp add: strconv_ParseBool_def)
  show ?thesis
    using a b b' c c'
      C7_feature_flag [of "ex_world Map.empty" "''''" "''''" ex_libs "ex_loader False" "''oci://acme/app''"]
      C7_feature_flag [of "ex_world [OCI_REMOTE_ENABLED \<mapsto> ''yes'']" "''yes''" "''yes''" ex_libs
        "ex_loader False" "''oci://acme/app''"]
      C7_feature_flag [of "ex_world [OCI_REMOTE_ENABLED \<mapsto> ''0'']" "''0''" "''0''" ex_libs
        "ex_loader False" "''oci://acme/app''"]
    by simp
qed

lemma Load_never_panics_on_long_path:
  "length OciPrefix \<le> length path \<Longrightarrow> fst (Load x g w path) \<noteq> Panic"
  by (simp add: Load_def Let_def split: sum.split option.split prod.split)

text \<open>
  C10, as the claim states it, fails: the slice (line 86) is reached only after the
  feature flag and the offline switch. An offline loader returns the empty string and
  no error for the three-character path \<^verbatim>\<open>oci\<close>, which \<open>Accept\<close> rejects.
\<close>

theorem C10_short_path_counterexample:
  "length ''oci'' < 6 \<and> \<not> Accept ''oci''
   \<and> fst (Load ex_libs (ex_loader True) (ex_world Map.empty) ''oci'') = Ok []
   \<and> fst (Load ex_libs (ex_loader True) (ex_world Map.empty) ''oci'') \<noteq> Panic"
  by (simp add: Accept_def strings_HasPrefix_def OciPrefix_def Load_def ex_world_def
      ex_flag_unset ex_loader_def NewOCIRemoteLoader_def)

text \<open>
  C10, amended: when the feature flag is enabled, the loader is not offline and the
  path is not in the Known-References Table, \<open>Load\<close> panics on every path shorter than
  six bytes, before it parses anything and with the loader and the world unchanged;
  \<open>Accept\<close> rejects every such path; and for a path that \<open>Accept\<close> takes the slice is
  in range and \<open>Load\<close> does not panic.
\<close>

theorem C10_short_path:
  "(length path < 6 \<and> ociRemoteLoaderEnabled (environ w) = Inr True \<and> \<not> offline g
      \<and> known g path = None
      \<longrightarrow> Load x g w path = (Panic, g, w))
   \<and> (length path < 6 \<longrightarrow> \<not> Accept path)
   \<and> (Accept path \<longrightarrow> length OciPrefix \<le> length path \<and> fst (Load x g w path) \<noteq> Panic)"
proof -
  have len: "length OciPrefix = 6"
    by (simp add: OciPrefix_def)
  have "Load x g w path = (Panic, g, w)"
    if "length path < 6" "ociRemoteLoaderEnabled (environ w) = Inr True" "\<not> offline g"
      "known g path = None"
    using that by (simp add: Load_def len)
  moreover have "length OciPrefix \<le> length path" if "Accept path"
    using that by (simp add: Accept_def strings_HasPrefix_def)
  ultimately show ?thesis
    using Load_never_panics_on_long_path [of path x g w] len by auto
qed

theorem C10_short_path_witness:
  "length ''oci:/'' < 6
   \<and> ociRemoteLoaderEnabled (environ (ex_world Map.empty)) = Inr True
   \<and> \<not> offline (ex_loader False) \<and> known (ex_loader False) ''oci:/'' = None
   \<and> Load ex_libs (ex_loader False) (ex_world Map.empty) ''oci:/''
       = (Panic, ex_loader False, ex_world Map.empty)
   \<and> \<not> Accept ''oci:/''
   \<and> Accept ''oci://acme/app''
   \<and> fst (Load ex_libs (ex_loader False) (ex_world Map.empty) ''oci://acme/app'') \<noteq> Panic"
proof -
  have en: "ociRemoteLoaderEnabled (environ (ex_world Map.empty)) = Inr True"
    by (simp add: ex_world_def ex_flag_unset)
  have g: "\<not> offline (ex_loader False) \<and> known (ex_loader False) ''oci:/'' = None"
    by (simp add: ex_loader_def NewOCIRemoteLoader_def)
  show ?thesis
    using en g ex_accept
      C10_short_path [of "''oci:/''" "ex_world Map.empty" "ex_loader False" ex_libs]
      C10_short_path [of "''oci://acme/app''" "ex_world Map.empty" "ex_loader False" ex_libs]
    by simp
qed

section \<open>Materialization: the layers of a manifest\<close>

lemmas ex_defs = ex_libs_def ex_get_def ex_world_def ex_ready_def ex_manifest_def ex_base_def
  ex_override_def ex_extends_def ex_env_def ex_env_bare_def ex_other_def ex_config_def
  ex_chart_def ex_yaml_def ex_envfile_def ex_project_def ex_empty_def

lemmas path_defs = filepath_Join_def filepath_Clean_def clean_step_def resolve_def
  resolve_step_def

lemmas os_defs = os_MkdirAll_def os_Create_def os_Stat_def os_IsNotExist_def file_Write_def
  write_at_def os_RemoveAll_def

subsection \<open>Writing at the end of a file\<close>

lemma write_at_end: "write_at old (length old) data = old @ data"
  by (simp add: write_at_def)

lemma file_Write_at_end:
  "fs0 p = Some (File old) \<Longrightarrow>
     file_Write fs0 (p, length old) data
       = Inr (fs0(p \<mapsto> File (old @ data)), (p, length old + length data))"
  by (simp add: file_Write_def write_at_end)

lemma os_Create_Inr:
  "os_Create fs0 p = Inr (fs1, t) \<Longrightarrow> fs1 = fs0(p \<mapsto> File []) \<and> t = (p, 0)"
  by (auto simp: os_Create_def split: if_splits sum.splits node.splits)

text \<open>
  What \<open>writeComposeFile\<close> leaves in a file whose handle stands at its end: the old
  bytes, the separator when the position is not 0 and the layer has a file annotation,
  and the content.
\<close>

lemma writeComposeFile_at_end:
  assumes "fs0 p = Some (File old)"
  shows "writeComposeFile layer i (p, length old) content fs0
           = Inr (fs0(p \<mapsto> File (old @
                    (if i > 0 \<and> Annotations layer ''com.docker.compose.file'' \<noteq> None
                     then separator else []) @ content)),
                  (p, length (old @
                    (if i > 0 \<and> Annotations layer ''com.docker.compose.file'' \<noteq> None
                     then separator else []) @ content)))"
proof (cases "i > 0 \<and> Annotations layer ''com.docker.compose.file'' \<noteq> None")
  case True
  have "file_Write fs0 (p, length old) separator
          = Inr (fs0(p \<mapsto> File (old @ separator)), (p, length (old @ separator)))"
    using assms by (simp add: file_Write_at_end)
  moreover have "file_Write (fs0(p \<mapsto> File (old @ separator))) (p, length (old @ separator)) content
          = Inr ((fs0(p \<mapsto> File (old @ separator)))(p \<mapsto> File ((old @ separator) @ content)),
                 (p, length (old @ separator) + length content))"
    by (rule file_Write_at_end) simp
  ultimately show ?thesis
    using True by (simp add: writeComposeFile_def)
next
  case False
  then show ?thesis
    using assms by (auto simp add: writeComposeFile_def file_Write_at_end)
qed

lemma writeEnvFile_errors:
  "writeEnvFile wd layer local content fs0 = Inl e \<Longrightarrow> e \<noteq> NotComposeArtifact r a"
  by (auto simp: writeEnvFile_def split: option.splits sum.splits prod.splits)

lemma pull_layers_no_validation_error:
  "fst (pull_layers x get local ref f i ls w) \<noteq> Some (NotComposeArtifact r a)"
proof (induction ls arbitrary: f i w)
  case Nil
  then show ?case by simp
next
  case (Cons layer rest)
  show ?case
    using Cons.IH
    by (auto simp: Let_def split: sum.splits prod.splits dest: writeEnvFile_errors)
qed

subsection \<open>The example manifests, materialized\<close>

lemma ex_local: "resolve [] ''/cache/aa'' = [''cache'', ''aa'']"
  by (simp add: path_defs)

lemma ex_primary:
  "resolve [] (filepath_Join ''/cache/aa'' ''compose.yaml'') = [''cache'', ''aa'', ''compose.yaml'']"
  by (simp add: path_defs)

lemma ex_mkdir:
  "os_MkdirAll Map.empty [''cache'', ''aa''] = Inr [[''cache''] \<mapsto> Directory, [''cache'', ''aa''] \<mapsto> Directory]"
  by (simp add: os_MkdirAll_def)

lemma ex_create:
  "os_Create [[''cache''] \<mapsto> Directory, [''cache'', ''aa''] \<mapsto> Directory] [''cache'', ''aa'', ''compose.yaml'']
     = Inr ([[''cache''] \<mapsto> Directory, [''cache'', ''aa''] \<mapsto> Directory,
             [''cache'', ''aa'', ''compose.yaml''] \<mapsto> File []],
            ([''cache'', ''aa'', ''compose.yaml''], 0))"
  by (simp add: os_Create_def)

lemma ex_pull_app:
  "pullComposeFiles ex_libs ex_get ''/cache/aa'' (ex_manifest [ex_base, ex_extends]) ''acme/app''
     (ex_world Map.empty)
   = (None, ex_world Map.empty\<lparr>fetched := [''acme/app@sha256:01'', ''acme/app@sha256:02''],
        fs := [[''cache''] \<mapsto> Directory, [''cache'', ''aa''] \<mapsto> Directory,
               [''cache'', ''aa'', ''compose.yaml''] \<mapsto> File ''services: {}'',
               [''cache'', ''aa'', ''base.yaml''] \<mapsto> File (separator @ ''volumes: {}'')]\<rparr>)"
  by (simp add: pullComposeFiles_def ex_defs path_defs os_defs writeComposeFile_def annotation_def
      separator_def Let_def)

lemma ex_pull_fetch_fails:
  "pullComposeFiles ex_libs ex_get ''/cache/aa'' (ex_manifest [l\<lparr>Digest := ''sha256:09''\<rparr>, ex_base])
     ''acme/app'' (ex_world Map.empty)
   = (Some (Foreign ''not found''),
      ex_world Map.empty\<lparr>fetched := [''acme/app@sha256:09''],
        fs := [[''cache''] \<mapsto> Directory, [''cache'', ''aa''] \<mapsto> Directory,
               [''cache'', ''aa'', ''compose.yaml''] \<mapsto> File []]\<rparr>)"
  by (simp add: pullComposeFiles_def ex_defs path_defs os_defs Let_def)

lemma ex_pull_env_subdir:
  "pullComposeFiles ex_libs ex_get ''/cache/aa'' (ex_manifest [ex_env ''conf/app.env''])
     ''acme/app'' (ex_world Map.empty)
   = (Some (OsError ENOENT),
      ex_world Map.empty\<lparr>fetched := [''acme/app@sha256:03''],
        fs := [[''cache''] \<mapsto> Directory, [''cache'', ''aa''] \<mapsto> Directory,
               [''cache'', ''aa'', ''compose.yaml''] \<mapsto> File []]\<rparr>)"
  by (simp add: pullComposeFiles_def ex_defs path_defs os_defs writeEnvFile_def Let_def)

subsection \<open>The claims about materialization\<close>

text \<open>
  C2, as the claim states it, fails: the file of an extends layer is written by
  \<open>writeComposeFile\<close> with the position of the layer (line 167), and that function
  writes the separator for every position above 0 when the layer has a file annotation
  (line 181), whatever the target is. For the project with the layers \<open>ex_base\<close> and
  \<open>ex_extends\<close>, the file \<^verbatim>\<open>/cache/aa/base.yaml\<close> of the extends layer at position 1
  starts with the separator.
\<close>

theorem C2_extends_counterexample:
  "MediaType ex_extends = ComposeYAMLMediaType ex_libs
   \<and> Annotations ex_extends ''com.docker.compose.extends'' \<noteq> None
   \<and> ex_get ''acme/app@sha256:02'' = Inr (''volumes: {}'', ex_override)
   \<and> fst (pullComposeFiles ex_libs ex_get ''/cache/aa'' (ex_manifest [ex_base, ex_extends])
            ''acme/app'' (ex_world Map.empty)) = None
   \<and> fs (snd (pullComposeFiles ex_libs ex_get ''/cache/aa'' (ex_manifest [ex_base, ex_extends])
            ''acme/app'' (ex_world Map.empty)))
        (resolve [] (filepath_Join ''/cache/aa''
           (annotation ex_extends ''com.docker.compose.file'')))
      = Some (File (separator @ ''volumes: {}''))
   \<and> separator @ ''volumes: {}'' \<noteq> ''volumes: {}''"
proof -
  have "resolve [] (filepath_Join ''/cache/aa'' (annotation ex_extends ''com.docker.compose.file''))
          = [''cache'', ''aa'', ''base.yaml'']"
    by (simp add: annotation_def ex_extends_def path_defs)
  moreover have "MediaType ex_extends = ComposeYAMLMediaType ex_libs
      \<and> Annotations ex_extends ''com.docker.compose.extends'' \<noteq> None
      \<and> ex_get ''acme/app@sha256:02'' = Inr (''volumes: {}'', ex_override)"
    by (simp add: ex_extends_def ex_libs_def ex_get_def)
  ultimately show ?thesis
    by (simp add: ex_pull_app separator_def)
qed

text \<open>
  C2, amended: for every compose-YAML layer whose annotations contain the extends key,
  once its content is fetched and the file \<^verbatim>\<open><dir>/<file-annotation-value>\<close> can be
  created, materialization creates that file (empty if it existed), writes into it the
  separator if the position of the layer is above 0 and the layer has a file
  annotation, and then the raw content, once; the primary file and its handle are not
  touched, and materialization goes on with the next layer.
\<close>

theorem C2_extends:
  assumes "MediaType layer = ComposeYAMLMediaType x"
    and "Annotations layer ''com.docker.compose.extends'' \<noteq> None"
    and "WithDigest x ref (Digest layer) = Inr digested"
    and "get digested = Inr (content, d)"
    and "target = resolve (cwd w) (filepath_Join local (annotation layer ''com.docker.compose.file''))"
    and "os_Create (fs w) target = Inr (fs1, t)"
  shows "pull_layers x get local ref f i (layer # rest) w
           = pull_layers x get local ref f (Suc i) rest
               (w\<lparr>fetched := fetched w @ [digested],
                  fs := (fs w)(target \<mapsto> File
                          ((if i > 0 \<and> Annotations layer ''com.docker.compose.file'' \<noteq> None
                            then separator else []) @ content))\<rparr>)"
proof -
  let ?sep = "if i > 0 \<and> Annotations layer ''com.docker.compose.file'' \<noteq> None
              then separator else []"
  from assms(6) have c: "fs1 = (fs w)(target \<mapsto> File [])" "t = (target, 0)"
    by (auto dest: os_Create_Inr)
  have "writeComposeFile layer i (target, length ([]::bytes)) content fs1
          = Inr (fs1(target \<mapsto> File ([] @ ?sep @ content)), (target, length ([] @ ?sep @ content)))"
    by (rule writeComposeFile_at_end) (simp add: c)
  then have w: "writeComposeFile layer i t content fs1
          = Inr ((fs w)(target \<mapsto> File (?sep @ content)), (target, length (?sep @ content)))"
    by (simp add: c)
  show ?thesis
    using assms(1-4) assms(6) [unfolded assms(5)] w [unfolded assms(5)]
    by (simp add: Let_def assms(5))
qed

theorem C2_extends_witness:
  "MediaType ex_extends = ComposeYAMLMediaType ex_libs
   \<and> Annotations ex_extends ''com.docker.compose.extends'' \<noteq> None
   \<and> WithDigest ex_libs ''acme/app'' (Digest ex_extends) = Inr ''acme/app@sha256:02''
   \<and> ex_get ''acme/app@sha256:02'' = Inr (''volumes: {}'', ex_override)
   \<and> [''cache'', ''aa'', ''base.yaml'']
       = resolve (cwd ex_ready)
           (filepath_Join ''/cache/aa'' (annotation ex_extends ''com.docker.compose.file''))
   \<and> os_Create (fs ex_ready) [''cache'', ''aa'', ''base.yaml'']
       = Inr ((fs ex_ready)([''cache'', ''aa'', ''base.yaml''] \<mapsto> File []),
              ([''cache'', ''aa'', ''base.yaml''], 0))
   \<and> pull_layers ex_libs ex_get ''/cache/aa'' ''acme/app'' ([''cache'', ''aa'', ''compose.yaml''], 0)
        0 [ex_extends] ex_ready
       = (None, ex_ready\<lparr>fetched := [''acme/app@sha256:02''],
            fs := (fs ex_ready)([''cache'', ''aa'', ''base.yaml''] \<mapsto> File ''volumes: {}'')\<rparr>)
   \<and> pull_layers ex_libs ex_get ''/cache/aa'' ''acme/app'' ([''cache'', ''aa'', ''compose.yaml''], 0)
        3 [ex_extends] ex_ready
       = (None, ex_ready\<lparr>fetched := [''acme/app@sha256:02''],
            fs := (fs ex_ready)([''cache'', ''aa'', ''base.yaml'']
                     \<mapsto> File (separator @ ''volumes: {}''))\<rparr>)"
proof -
  have h1: "MediaType ex_extends = ComposeYAMLMediaType ex_libs"
    by (simp add: ex_extends_def ex_libs_def)
  have h2: "Annotations ex_extends ''com.docker.compose.extends'' \<noteq> None"
    by (simp add: ex_extends_def)
  have h3: "WithDigest ex_libs ''acme/app'' (Digest ex_extends) = Inr ''acme/app@sha256:02''"
    by (simp add: ex_extends_def ex_libs_def)
  have h4: "ex_get ''acme/app@sha256:02'' = Inr (''volumes: {}'', ex_override)"
    by (simp add: ex_get_def)
  have h5: "[''cache'', ''aa'', ''base.yaml'']
              = resolve (cwd ex_ready)
                  (filepath_Join ''/cache/aa'' (annotation ex_extends ''com.docker.compose.file''))"
    by (simp add: annotation_def ex_extends_def ex_ready_def path_defs)
  have h6: "os_Create (fs ex_ready) [''cache'', ''aa'', ''base.yaml'']
              = Inr ((fs ex_ready)([''cache'', ''aa'', ''base.yaml''] \<mapsto> File []),
                     ([''cache'', ''aa'', ''base.yaml''], 0))"
    by (simp add: ex_ready_def os_Create_def)
  have fa: "Annotations ex_extends ''com.docker.compose.file'' \<noteq> None"
    by (simp add: ex_extends_def)
  note inst = C2_extends [where x = ex_libs and get = ex_get and layer = ex_extends
      and ref = "''acme/app''" and local = "''/cache/aa''" and w = ex_ready and rest = "[]"
      and f = "([''cache'', ''aa'', ''compose.yaml''], 0)", OF h1 h2 h3 h4 h5 h6]
  have r0: "pull_layers ex_libs ex_get ''/cache/aa'' ''acme/app''
              ([''cache'', ''aa'', ''compose.yaml''], 0) 0 [ex_extends] ex_ready
       = (None, ex_ready\<lparr>fetched := [''acme/app@sha256:02''],
            fs := (fs ex_ready)([''cache'', ''aa'', ''base.yaml''] \<mapsto> File ''volumes: {}'')\<rparr>)"
    using inst [of 0] by (simp add: ex_ready_def)
  have r3: "pull_layers ex_libs ex_get ''/cache/aa'' ''acme/app''
              ([''cache'', ''aa'', ''compose.yaml''], 0) 3 [ex_extends] ex_ready
       = (None, ex_ready\<lparr>fetched := [''acme/app@sha256:02''],
            fs := (fs ex_ready)([''cache'', ''aa'', ''base.yaml'']
                     \<mapsto> File (separator @ ''volumes: {}''))\<rparr>)"
    using inst [of 3] fa by (simp add: ex_ready_def)
  show ?thesis
    using h1 h2 h3 h4 h5 h6 r0 r3 by blast
qed

text \<open>
  C3: once the target directory and the primary file are created (lines 132 to 141)
  and given that the compose-project artifact type is not the empty string, the
  manifest passes validation, and materialization goes on to the layers, if and only if
  its artifact type is the compose-project artifact type, or its artifact type is
  empty and the media type of its config descriptor is the empty-config sentinel.
  Every other manifest yields the error that names the reference and the offending
  artifact type, before any layer is fetched; and the layers never yield that error.
\<close>

theorem C3_validation:
  assumes "ComposeProjectArtifactType x \<noteq> []"
    and "os_MkdirAll (fs w) (resolve (cwd w) local) = Inr fs1"
    and "os_Create fs1 (resolve (cwd w) (filepath_Join local ''compose.yaml'')) = Inr (fs2, f)"
  shows "pullComposeFiles x get local m ref w
           = (if ArtifactType m = ComposeProjectArtifactType x
                 \<or> (ArtifactType m = [] \<and> MediaType (Config m) = ComposeEmptyConfigMediaType x)
              then pull_layers x get local ref f 0 (Layers m) (w\<lparr>fs := fs2\<rparr>)
              else (Some (NotComposeArtifact ref (ArtifactType m)), w\<lparr>fs := fs2\<rparr>))
         \<and> fst (pull_layers x get local ref f 0 (Layers m) (w\<lparr>fs := fs2\<rparr>))
             \<noteq> Some (NotComposeArtifact ref (ArtifactType m))"
  using assms pull_layers_no_validation_error [of x get local ref f 0 "Layers m" "w\<lparr>fs := fs2\<rparr>"]
  by (auto simp: pullComposeFiles_def Let_def)

theorem C3_validation_witness:
  "ComposeProjectArtifactType ex_libs \<noteq> []
   \<and> os_MkdirAll (fs (ex_world Map.empty)) (resolve (cwd (ex_world Map.empty)) ''/cache/aa'')
       = Inr (fs ex_ready)
   \<and> os_Create (fs ex_ready)
        (resolve (cwd (ex_world Map.empty)) (filepath_Join ''/cache/aa'' ''compose.yaml''))
       = Inr ((fs ex_ready)([''cache'', ''aa'', ''compose.yaml''] \<mapsto> File []),
              ([''cache'', ''aa'', ''compose.yaml''], 0))
   \<and> pullComposeFiles ex_libs ex_get ''/cache/aa'' ex_chart ''acme/chart'' (ex_world Map.empty)
       = (Some (NotComposeArtifact ''acme/chart'' ''application/vnd.acme.chart''),
          ex_world Map.empty\<lparr>fs := (fs ex_ready)([''cache'', ''aa'', ''compose.yaml''] \<mapsto> File [])\<rparr>)
   \<and> pullComposeFiles ex_libs ex_get ''/cache/aa'' (ex_manifest []) ''acme/app'' (ex_world Map.empty)
       = (None,
          ex_world Map.empty\<lparr>fs := (fs ex_ready)([''cache'', ''aa'', ''compose.yaml''] \<mapsto> File [])\<rparr>)
   \<and> pullComposeFiles ex_libs ex_get ''/cache/aa''
        ((ex_manifest [])\<lparr>ArtifactType := []\<rparr>) ''acme/app'' (ex_world Map.empty)
       = (None,
          ex_world Map.empty\<lparr>fs := (fs ex_ready)([''cache'', ''aa'', ''compose.yaml''] \<mapsto> File [])\<rparr>)"
proof -
  have h1: "ComposeProjectArtifactType ex_libs \<noteq> []"
    by (simp add: ex_libs_def ex_project_def)
  have h2: "os_MkdirAll (fs (ex_world Map.empty)) (resolve (cwd (ex_world Map.empty)) ''/cache/aa'')
              = Inr (fs ex_ready)"
    by (simp add: ex_world_def ex_ready_def ex_local ex_mkdir)
  have h3: "os_Create (fs ex_ready)
              (resolve (cwd (ex_world Map.empty)) (filepath_Join ''/cache/aa'' ''compose.yaml''))
              = Inr ((fs ex_ready)([''cache'', ''aa'', ''compose.yaml''] \<mapsto> File []),
                     ([''cache'', ''aa'', ''compose.yaml''], 0))"
    by (simp add: ex_world_def ex_ready_def ex_primary ex_create)
  note inst = C3_validation [OF h1 h2 h3, of ex_get]
  note t = ex_chart_def ex_libs_def ex_project_def ex_empty_def ex_manifest_def ex_config_def
  have a: "pullComposeFiles ex_libs ex_get ''/cache/aa'' ex_chart ''acme/chart'' (ex_world Map.empty)
       = (Some (NotComposeArtifact ''acme/chart'' ''application/vnd.acme.chart''),
          ex_world Map.empty\<lparr>fs := (fs ex_ready)([''cache'', ''aa'', ''compose.yaml''] \<mapsto> File [])\<rparr>)"
    using inst [of ex_chart "''acme/chart''"] by (simp add: t)
  have b: "pullComposeFiles ex_libs ex_get ''/cache/aa'' (ex_manifest []) ''acme/app'' (ex_world Map.empty)
       = (None,
          ex_world Map.empty\<lparr>fs := (fs ex_ready)([''cache'', ''aa'', ''compose.yaml''] \<mapsto> File [])\<rparr>)"
    using inst [of "ex_manifest []" "''acme/app''"] by (simp add: t)
  have c: "pullComposeFiles ex_libs ex_get ''/cache/aa''
        ((ex_manifest [])\<lparr>ArtifactType := []\<rparr>) ''acme/app'' (ex_world Map.empty)
       = (None,
          ex_world Map.empty\<lparr>fs := (fs ex_ready)([''cache'', ''aa'', ''compose.yaml''] \<mapsto> File [])\<rparr>)"
    using inst [of "(ex_manifest [])\<lparr>ArtifactType := []\<rparr>" "''acme/app''"] by (simp add: t)
  show ?thesis
    using h1 h2 h3 a b c by blast
qed



text \<open>
  C6, as the claim states it, fails in both halves. The content of every layer is
  fetched before its media type is looked at (lines 148 to 155): when the fetch of an
  env-file layer without the envfile key fails, materialization fails with the error
  of the Resolver, not with the missing-annotation error. And the file of an env-file
  layer is created without its parent directories (line 196): for the envfile value
  \<^verbatim>\<open>conf/app.env\<close> the creation fails and nothing is written.
\<close>

theorem C6_envfile_counterexample:
  "MediaType (ex_env_bare ''sha256:09'') = ComposeEnvFileMediaType ex_libs
   \<and> Annotations (ex_env_bare ''sha256:09'') ''com.docker.compose.envfile'' = None
   \<and> fst (pullComposeFiles ex_libs ex_get ''/cache/aa''
            (ex_manifest [ex_env_bare ''sha256:09'', ex_base]) ''acme/app'' (ex_world Map.empty))
       = Some (Foreign ''not found'')
   \<and> MediaType (ex_env ''conf/app.env'') = ComposeEnvFileMediaType ex_libs
   \<and> Annotations (ex_env ''conf/app.env'') ''com.docker.compose.envfile'' = Some ''conf/app.env''
   \<and> fst (pullComposeFiles ex_libs ex_get ''/cache/aa''
            (ex_manifest [ex_env ''conf/app.env'']) ''acme/app'' (ex_world Map.empty))
       = Some (OsError ENOENT)
   \<and> fs (snd (pullComposeFiles ex_libs ex_get ''/cache/aa''
            (ex_manifest [ex_env ''conf/app.env'']) ''acme/app'' (ex_world Map.empty)))
        (resolve [] (filepath_Join ''/cache/aa'' ''conf/app.env''))
       = None"
proof -
  have "ex_env_bare ''sha256:09'' = (ex_env_bare ''sha256:09'')\<lparr>Digest := ''sha256:09''\<rparr>"
    by (simp add: ex_env_bare_def)
  then have "fst (pullComposeFiles ex_libs ex_get ''/cache/aa''
            (ex_manifest [ex_env_bare ''sha256:09'', ex_base]) ''acme/app'' (ex_world Map.empty))
       = Some (Foreign ''not found'')"
    using ex_pull_fetch_fails [of "ex_env_bare ''sha256:09''"] by simp
  moreover have "resolve [] (filepath_Join ''/cache/aa'' ''conf/app.env'')
                   = [''cache'', ''aa'', ''conf'', ''app.env'']"
    by (simp add: path_defs)
  moreover have "MediaType (ex_env_bare ''sha256:09'') = ComposeEnvFileMediaType ex_libs
      \<and> Annotations (ex_env_bare ''sha256:09'') ''com.docker.compose.envfile'' = None
      \<and> MediaType (ex_env ''conf/app.env'') = ComposeEnvFileMediaType ex_libs
      \<and> Annotations (ex_env ''conf/app.env'') ''com.docker.compose.envfile'' = Some ''conf/app.env''"
    by (simp add: ex_env_bare_def ex_env_def ex_libs_def)
  ultimately show ?thesis
    by (simp add: ex_pull_env_subdir)
qed

text \<open>
  C6, amended: for every compose-env-file layer whose content is fetched: if its
  annotations lack the envfile key, materialization fails with the
  missing-annotation error that names the digest of the layer, and aborts without
  processing any later layer and without writing anything for this one; if the key is
  present and the file \<^verbatim>\<open><dir>/<envfile-value>\<close> can be created, the raw content is
  written to it verbatim and materialization goes on with the next layer.
\<close>

theorem C6_envfile:
  assumes "MediaType layer = ComposeEnvFileMediaType x"
    and "MediaType layer \<noteq> ComposeYAMLMediaType x"
    and "WithDigest x ref (Digest layer) = Inr digested"
    and "get digested = Inr (content, d)"
  shows "(Annotations layer ''com.docker.compose.envfile'' = None \<longrightarrow>
            pull_layers x get local ref f i (layer # rest) w
              = (Some (MissingEnvfileAnnotation (Digest layer)),
                 w\<lparr>fetched := fetched w @ [digested]\<rparr>))
         \<and> (Annotations layer ''com.docker.compose.envfile'' = Some v
              \<and> os_Create (fs w) (resolve (cwd w) (filepath_Join local v)) = Inr (fs1, t) \<longrightarrow>
            pull_layers x get local ref f i (layer # rest) w
              = pull_layers x get local ref f (Suc i) rest
                  (w\<lparr>fetched := fetched w @ [digested],
                     fs := (fs w)(resolve (cwd w) (filepath_Join local v) \<mapsto> File content)\<rparr>))"
proof (intro conjI impI)
  assume "Annotations layer ''com.docker.compose.envfile'' = None"
  then show "pull_layers x get local ref f i (layer # rest) w
              = (Some (MissingEnvfileAnnotation (Digest layer)),
                 w\<lparr>fetched := fetched w @ [digested]\<rparr>)"
    using assms by (simp add: Let_def writeEnvFile_def)
next
  assume a: "Annotations layer ''com.docker.compose.envfile'' = Some v
              \<and> os_Create (fs w) (resolve (cwd w) (filepath_Join local v)) = Inr (fs1, t)"
  then have c: "fs1 = (fs w)(resolve (cwd w) (filepath_Join local v) \<mapsto> File [])"
      "t = (resolve (cwd w) (filepath_Join local v), 0)"
    by (auto dest: os_Create_Inr)
  have "file_Write fs1 (resolve (cwd w) (filepath_Join local v), length ([]::bytes)) content
          = Inr (fs1(resolve (cwd w) (filepath_Join local v) \<mapsto> File ([] @ content)),
                 (resolve (cwd w) (filepath_Join local v), length ([]::bytes) + length content))"
    by (rule file_Write_at_end) (simp add: c)
  then have "writeEnvFile (cwd w) layer local content (fs w)
          = Inr ((fs w)(resolve (cwd w) (filepath_Join local v) \<mapsto> File content))"
    using a c by (simp add: writeEnvFile_def)
  then show "pull_layers x get local ref f i (layer # rest) w
              = pull_layers x get local ref f (Suc i) rest
                  (w\<lparr>fetched := fetched w @ [digested],
                     fs := (fs w)(resolve (cwd w) (filepath_Join local v) \<mapsto> File content)\<rparr>)"
    using assms by (simp add: Let_def)
qed

theorem C6_envfile_witness:
  "MediaType (ex_env_bare ''sha256:03'') = ComposeEnvFileMediaType ex_libs
   \<and> MediaType (ex_env_bare ''sha256:03'') \<noteq> ComposeYAMLMediaType ex_libs
   \<and> WithDigest ex_libs ''acme/app'' (Digest (ex_env_bare ''sha256:03'')) = Inr ''acme/app@sha256:03''
   \<and> ex_get ''acme/app@sha256:03'' = Inr (''KEY=1'', ex_env ''app.env'')
   \<and> Annotations (ex_env_bare ''sha256:03'') ''com.docker.compose.envfile'' = None
   \<and> pull_layers ex_libs ex_get ''/cache/aa'' ''acme/app'' ([''cache'', ''aa'', ''compose.yaml''], 0)
        0 [ex_env_bare ''sha256:03'', ex_base] ex_ready
       = (Some (MissingEnvfileAnnotation ''sha256:03''),
          ex_ready\<lparr>fetched := fetched ex_ready @ [''acme/app@sha256:03'']\<rparr>)
   \<and> MediaType (ex_env ''app.env'') = ComposeEnvFileMediaType ex_libs
   \<and> MediaType (ex_env ''app.env'') \<noteq> ComposeYAMLMediaType ex_libs
   \<and> WithDigest ex_libs ''acme/app'' (Digest (ex_env ''app.env'')) = Inr ''acme/app@sha256:03''
   \<and> Annotations (ex_env ''app.env'') ''com.docker.compose.envfile'' = Some ''app.env''
   \<and> os_Create (fs ex_ready) (resolve (cwd ex_ready) (filepath_Join ''/cache/aa'' ''app.env''))
       = Inr ((fs ex_ready)([''cache'', ''aa'', ''app.env''] \<mapsto> File []),
              ([''cache'', ''aa'', ''app.env''], 0))
   \<and> pull_layers ex_libs ex_get ''/cache/aa'' ''acme/app'' ([''cache'', ''aa'', ''compose.yaml''], 0)
        0 [ex_env ''app.env''] ex_ready
       = (None, ex_ready\<lparr>fetched := fetched ex_ready @ [''acme/app@sha256:03''],
            fs := (fs ex_ready)([''cache'', ''aa'', ''app.env''] \<mapsto> File ''KEY=1'')\<rparr>)"
proof -
  have a1: "MediaType (ex_env_bare ''sha256:03'') = ComposeEnvFileMediaType ex_libs"
    and a2: "MediaType (ex_env_bare ''sha256:03'') \<noteq> ComposeYAMLMediaType ex_libs"
    and a3: "WithDigest ex_libs ''acme/app'' (Digest (ex_env_bare ''sha256:03''))
               = Inr ''acme/app@sha256:03''"
    and a5: "Annotations (ex_env_bare ''sha256:03'') ''com.docker.compose.envfile'' = None"
    by (simp_all add: ex_env_bare_def ex_libs_def ex_envfile_def ex_yaml_def)
  have a4: "ex_get ''acme/app@sha256:03'' = Inr (''KEY=1'', ex_env ''app.env'')"
    by (simp add: ex_get_def)
  have b1: "MediaType (ex_env ''app.env'') = ComposeEnvFileMediaType ex_libs"
    and b2: "MediaType (ex_env ''app.env'') \<noteq> ComposeYAMLMediaType ex_libs"
    and b3: "WithDigest ex_libs ''acme/app'' (Digest (ex_env ''app.env'')) = Inr ''acme/app@sha256:03''"
    and b5: "Annotations (ex_env ''app.env'') ''com.docker.compose.envfile'' = Some ''app.env''"
    by (simp_all add: ex_env_def ex_libs_def ex_envfile_def ex_yaml_def)
  have p: "resolve (cwd ex_ready) (filepath_Join ''/cache/aa'' ''app.env'') = [''cache'', ''aa'', ''app.env'']"
    by (simp add: ex_ready_def path_defs)
  have b6: "os_Create (fs ex_ready) (resolve (cwd ex_ready) (filepath_Join ''/cache/aa'' ''app.env''))
              = Inr ((fs ex_ready)([''cache'', ''aa'', ''app.env''] \<mapsto> File []),
                     ([''cache'', ''aa'', ''app.env''], 0))"
    unfolding p by (simp add: ex_ready_def os_Create_def)
  have r1: "pull_layers ex_libs ex_get ''/cache/aa'' ''acme/app'' ([''cache'', ''aa'', ''compose.yaml''], 0)
        0 [ex_env_bare ''sha256:03'', ex_base] ex_ready
       = (Some (MissingEnvfileAnnotation ''sha256:03''),
          ex_ready\<lparr>fetched := fetched ex_ready @ [''acme/app@sha256:03'']\<rparr>)"
    using C6_envfile [where x = ex_libs and get = ex_get and layer = "ex_env_bare ''sha256:03''"
        and ref = "''acme/app''" and local = "''/cache/aa''" and w = ex_ready and rest = "[ex_base]"
        and f = "([''cache'', ''aa'', ''compose.yaml''], 0)" and i = 0, OF a1 a2 a3 a4] a5
    by (simp add: ex_env_bare_def)
  have r2: "pull_layers ex_libs ex_get ''/cache/aa'' ''acme/app'' ([''cache'', ''aa'', ''compose.yaml''], 0)
        0 [ex_env ''app.env''] ex_ready
       = (None, ex_ready\<lparr>fetched := fetched ex_ready @ [''acme/app@sha256:03''],
            fs := (fs ex_ready)([''cache'', ''aa'', ''app.env''] \<mapsto> File ''KEY=1'')\<rparr>)"
    using C6_envfile [where x = ex_libs and get = ex_get and layer = "ex_env ''app.env''"
        and ref = "''acme/app''" and local = "''/cache/aa''" and w = ex_ready and rest = "[]"
        and f = "([''cache'', ''aa'', ''compose.yaml''], 0)" and i = 0 and v = "''app.env''"
        and ?fs1.0 = "(fs ex_ready)([''cache'', ''aa'', ''app.env''] \<mapsto> File [])"
        and t = "([''cache'', ''aa'', ''app.env''], 0)", OF b1 b2 b3 a4] b5 b6
    by (simp add: p)
  show ?thesis
    using a1 a2 a3 a4 a5 b1 b2 b3 b5 b6 r1 r2 by blast
qed




section \<open>Load: the cache on disk and the Known-References Table\<close>

subsection \<open>What materialization leaves alone\<close>

lemma file_Write_dirs:
  "file_Write fs0 h data = Inr (fs1, h') \<Longrightarrow> fs0 q = Some Directory \<Longrightarrow> fs1 q = Some Directory"
  by (auto simp: file_Write_def split: option.splits node.splits)

lemma os_Create_dirs:
  "os_Create fs0 p = Inr (fs1, t) \<Longrightarrow> fs0 q = Some Directory \<Longrightarrow> fs1 q = Some Directory"
  by (auto simp: os_Create_def split: if_splits sum.splits node.splits)

lemma writeComposeFile_dirs:
  "writeComposeFile layer i h content fs0 = Inr (fs1, h') \<Longrightarrow> fs0 q = Some Directory
     \<Longrightarrow> fs1 q = Some Directory"
  by (auto simp: writeComposeFile_def split: if_splits sum.splits prod.splits
      dest: file_Write_dirs)

lemma writeEnvFile_dirs:
  "writeEnvFile wd layer local content fs0 = Inr fs1 \<Longrightarrow> fs0 q = Some Directory \<Longrightarrow> fs1 q = Some Directory"
  by (auto simp: writeEnvFile_def split: option.splits sum.splits prod.splits
      dest: file_Write_dirs os_Create_dirs)

lemma pull_layers_dirs:
  "fs w q = Some Directory \<Longrightarrow> fs (snd (pull_layers x get local ref f i ls w)) q = Some Directory"
proof (induction ls arbitrary: f i w)
  case Nil
  then show ?case by simp
next
  case (Cons layer rest)
  show ?case
    using Cons.prems
    by (auto simp: Let_def split: sum.splits prod.splits
        intro!: Cons.IH dest: os_Create_dirs writeComposeFile_dirs writeEnvFile_dirs)
qed

lemma pull_layers_frame:
  "environ (snd (pull_layers x get local ref f i ls w)) = environ w
   \<and> cwd (snd (pull_layers x get local ref f i ls w)) = cwd w
   \<and> cacheDir (snd (pull_layers x get local ref f i ls w)) = cacheDir w"
proof (induction ls arbitrary: f i w)
  case Nil
  then show ?case by simp
next
  case (Cons layer rest)
  show ?case
    by (simp add: Let_def Cons.IH split: sum.splits prod.splits)
qed

lemma pullComposeFiles_frame:
  "environ (snd (pullComposeFiles x get local m ref w)) = environ w
   \<and> cwd (snd (pullComposeFiles x get local m ref w)) = cwd w
   \<and> cacheDir (snd (pullComposeFiles x get local m ref w)) = cacheDir w"
  by (simp add: pullComposeFiles_def Let_def pull_layers_frame split: sum.splits prod.splits)

subsection \<open>Directories on the way to the target\<close>

lemma mkdir_from_dirs:
  "mkdir_from fs0 cur cs = Inr fs1 \<Longrightarrow> fs0 q = Some Directory \<Longrightarrow> fs1 q = Some Directory"
proof (induction fs0 cur cs rule: mkdir_from.induct)
  case (1 fs0 cur)
  then show ?case by simp
next
  case (2 fs0 cur c cs)
  show ?case
  proof (cases "fs0 (cur @ [c])")
    case None
    with "2.prems" have "mkdir_from (fs0(cur @ [c] \<mapsto> Directory)) (cur @ [c]) cs = Inr fs1"
      by simp
    moreover have "(fs0(cur @ [c] \<mapsto> Directory)) q = Some Directory"
      using "2.prems"(2) by simp
    ultimately show ?thesis
      using "2.IH"(1) [OF None] by blast
  next
    case (Some n)
    with "2.prems" have n: "n = Directory" and "mkdir_from fs0 (cur @ [c]) cs = Inr fs1"
      by (auto split: node.splits)
    then show ?thesis
      using "2.IH"(2) [OF Some] "2.prems"(2) by blast
  qed
qed

lemma walk_step_dir:
  "fs0 (cur @ [c]) = Some Directory \<Longrightarrow> walk fs0 cur (c # cs) = walk fs0 (cur @ [c]) cs"
  by (cases cs) simp_all

text \<open>After \<^verbatim>\<open>MkdirAll\<close> has succeeded the target is a directory.\<close>

lemma mkdir_from_walk:
  "mkdir_from fs0 cur cs = Inr fs1 \<Longrightarrow> walk fs1 cur cs = Inr Directory"
proof (induction fs0 cur cs rule: mkdir_from.induct)
  case (1 fs0 cur)
  then show ?case by simp
next
  case (2 fs0 cur c cs)
  show ?case
  proof (cases "fs0 (cur @ [c])")
    case None
    with "2.prems" have m: "mkdir_from (fs0(cur @ [c] \<mapsto> Directory)) (cur @ [c]) cs = Inr fs1"
      by simp
    then have "fs1 (cur @ [c]) = Some Directory"
      by (rule mkdir_from_dirs) simp
    moreover have "walk fs1 (cur @ [c]) cs = Inr Directory"
      using "2.IH"(1) [OF None m] .
    ultimately show ?thesis
      by (simp add: walk_step_dir)
  next
    case (Some n)
    with "2.prems" have n: "n = Directory" and m: "mkdir_from fs0 (cur @ [c]) cs = Inr fs1"
      by (auto split: node.splits)
    from m have "fs1 (cur @ [c]) = Some Directory"
      by (rule mkdir_from_dirs) (simp add: Some n)
    moreover have "walk fs1 (cur @ [c]) cs = Inr Directory"
      using "2.IH"(2) [OF Some n m] .
    ultimately show ?thesis
      by (simp add: walk_step_dir)
  qed
qed

text \<open>A path that leads to a directory still does so when no directory is lost.\<close>

lemma walk_dir_mono:
  "walk fs0 cur cs = Inr Directory \<Longrightarrow> (\<And>q. fs0 q = Some Directory \<Longrightarrow> fs1 q = Some Directory)
     \<Longrightarrow> walk fs1 cur cs = Inr Directory"
proof (induction fs0 cur cs rule: walk.induct)
  case (1 fs0 cur)
  then show ?case by simp
next
  case (2 fs0 cur c)
  from "2.prems"(1) have "fs0 (cur @ [c]) = Some Directory"
    by (auto split: option.splits)
  then have "fs1 (cur @ [c]) = Some Directory"
    by (rule "2.prems"(2))
  then show ?case
    by simp
next
  case (3 fs0 cur c d cs)
  from "3.prems"(1) have d: "fs0 (cur @ [c]) = Some Directory"
    by (auto split: option.splits node.splits)
  with "3.prems"(1) have "walk fs0 (cur @ [c]) (d # cs) = Inr Directory"
    by simp
  then have "walk fs1 (cur @ [c]) (d # cs) = Inr Directory"
    using "3.IH" [OF d] "3.prems"(2) by blast
  moreover have "fs1 (cur @ [c]) = Some Directory"
    using d by (rule "3.prems"(2))
  ultimately show ?case
    by simp
qed

text \<open>
  Removing a target that was reachable, or missing, leaves it missing: \<^verbatim>\<open>Stat\<close> then
  says \<^verbatim>\<open>ENOENT\<close>.
\<close>

lemma walk_RemoveAll:
  "cs \<noteq> [] \<Longrightarrow> walk fs0 cur cs \<noteq> Inl ENOTDIR
     \<Longrightarrow> walk (os_RemoveAll fs0 (cur @ cs)) cur cs = Inl ENOENT"
proof (induction fs0 cur cs rule: walk.induct)
  case (1 fs0 cur)
  then show ?case by simp
next
  case (2 fs0 cur c)
  show ?case
    by (simp add: os_RemoveAll_def)
next
  case (3 fs0 cur c d cs)
  have same: "os_RemoveAll fs0 (cur @ c # d # cs) (cur @ [c]) = fs0 (cur @ [c])"
    by (simp add: os_RemoveAll_def)
  show ?case
  proof (cases "fs0 (cur @ [c])")
    case None
    then show ?thesis
      using same by simp
  next
    case (Some n)
    with "3.prems" have n: "n = Directory" and "walk fs0 (cur @ [c]) (d # cs) \<noteq> Inl ENOTDIR"
      by (auto split: node.splits)
    then have "walk (os_RemoveAll fs0 ((cur @ [c]) @ d # cs)) (cur @ [c]) (d # cs) = Inl ENOENT"
      using "3.IH" [OF Some [unfolded n]] by simp
    then show ?thesis
      using same Some n by simp
  qed
qed

lemma pullComposeFiles_success_dir:
  assumes "pullComposeFiles x get local m ref w = (None, w2)"
  shows "os_Stat (fs w2) (resolve (cwd w) local) = Inr Directory"
proof -
  from assms obtain fs1 fs2 f where
    mk: "os_MkdirAll (fs w) (resolve (cwd w) local) = Inr fs1"
    and cr: "os_Create fs1 (resolve (cwd w) (filepath_Join local ''compose.yaml'')) = Inr (fs2, f)"
    and pl: "pull_layers x get local ref f 0 (Layers m) (w\<lparr>fs := fs2\<rparr>) = (None, w2)"
    by (auto simp: pullComposeFiles_def Let_def split: sum.splits prod.splits if_splits)
  from mk have "walk fs1 [] (resolve (cwd w) local) = Inr Directory"
    by (simp add: os_MkdirAll_def mkdir_from_walk)
  moreover have "fs (w2) q = Some Directory" if "fs1 q = Some Directory" for q
  proof -
    from that cr have "fs (w\<lparr>fs := fs2\<rparr>) q = Some Directory"
      by (auto dest: os_Create_dirs)
    then have "fs (snd (pull_layers x get local ref f 0 (Layers m) (w\<lparr>fs := fs2\<rparr>))) q = Some Directory"
      by (rule pull_layers_dirs)
    then show ?thesis
      by (simp add: pl)
  qed
  ultimately show ?thesis
    unfolding os_Stat_def by (rule walk_dir_mono)
qed

lemma pullComposeFiles_stat:
  assumes "pullComposeFiles x get local m ref w = (r, w2)"
  shows "os_Stat (fs w2) (resolve (cwd w) local) = Inr Directory
         \<or> os_Stat (fs w2) (resolve (cwd w) local) = os_Stat (fs w) (resolve (cwd w) local)"
proof (cases "os_MkdirAll (fs w) (resolve (cwd w) local)")
  case (Inl e)
  with assms show ?thesis
    by (simp add: pullComposeFiles_def)
next
  case (Inr fs1)
  then have d: "walk fs1 [] (resolve (cwd w) local) = Inr Directory"
    by (simp add: os_MkdirAll_def mkdir_from_walk)
  have "fs w2 q = Some Directory" if q: "fs1 q = Some Directory" for q
  proof (cases "os_Create fs1 (resolve (cwd w) (filepath_Join local ''compose.yaml''))")
    case (Inl e)
    with assms Inr q show ?thesis
      by (auto simp: pullComposeFiles_def Let_def)
  next
    case c: (Inr a)
    obtain fs2 f where a: "a = (fs2, f)"
      by (cases a)
    from q c a have "fs (w\<lparr>fs := fs2\<rparr>) q = Some Directory"
      by (auto dest: os_Create_dirs)
    then have "fs (snd (pull_layers x get local ref f 0 (Layers m) (w\<lparr>fs := fs2\<rparr>))) q = Some Directory"
      by (rule pull_layers_dirs)
    with assms Inr c a \<open>fs (w\<lparr>fs := fs2\<rparr>) q = Some Directory\<close> show ?thesis
      by (auto simp: pullComposeFiles_def Let_def split: if_splits)
  qed
  with d have "walk (fs w2) [] (resolve (cwd w) local) = Inr Directory"
    by (rule walk_dir_mono)
  then show ?thesis
    by (simp add: os_Stat_def)
qed

subsection \<open>Load on a path that is not in the table\<close>

lemma pullComposeFiles_world:
  "pullComposeFiles x get local m ref w = (r, w2)
     \<Longrightarrow> environ w2 = environ w \<and> cwd w2 = cwd w \<and> cacheDir w2 = cacheDir w"
  using pullComposeFiles_frame [of x get local m ref w] by simp

text \<open>
  The path of lines 84 to 121: every step before materialization succeeds, the target
  directory does not exist, and \<open>Load\<close> is what materialization makes of it.
\<close>

lemma Load_miss:
  assumes "ociRemoteLoaderEnabled (environ w) = Inr True" and "\<not> offline g"
    and "known g path = None" and "length OciPrefix \<le> length path"
    and "ParseDockerRef x (drop (length OciPrefix) path) = Inr ref"
    and "dockerCli g = Inr get" and "get ref = Inr (content, desc)"
    and "cacheDir w = Inr cache"
    and "local = filepath_Join cache (Hex x (Digest desc))"
    and "os_IsNotExist (os_Stat (fs w) (resolve (cwd w) local))"
    and "Unmarshal x content = Inr m"
  shows "Load x g w path
           = (case pullComposeFiles x get local m ref (w\<lparr>fetched := fetched w @ [ref]\<rparr>) of
                (Some err, w2) \<Rightarrow>
                  (Err err, g, w2\<lparr>fs := os_RemoveAll (fs w2) (resolve (cwd w2) local)\<rparr>)
              | (None, w2) \<Rightarrow>
                  (Ok (filepath_Join local ''compose.yaml''),
                   g\<lparr>known := (known g)(path \<mapsto> local)\<rparr>, w2))"
  using assms(1-8) assms(10) [unfolded assms(9)] assms(11) unfolding assms(9)
  by (simp add: Load_def Let_def)

lemma Load_success:
  assumes "Load x g w path = (Ok p, g', w')"
  shows "ociRemoteLoaderEnabled (environ w') = Inr True \<and> offline g' = offline g
         \<and> (if offline g then p = [] \<and> g' = g \<and> w' = w
            else \<exists>local. known g' path = Some local \<and> p = filepath_Join local ''compose.yaml'')"
  using assms
  by (auto simp: Load_def Let_def split: sum.splits option.splits if_splits prod.splits
      dest: pullComposeFiles_world)

lemma Load_again:
  assumes "Load x g w path = (Ok p, g', w')"
    and "ociRemoteLoaderEnabled (environ v) = Inr True"
  shows "Load x g' v path = (Ok p, g', v)"
proof -
  note s = Load_success [OF assms(1)]
  show ?thesis
  proof (cases "offline g")
    case True
    with s have "p = []" "offline g'"
      by auto
    with assms(2) show ?thesis
      by (simp add: Load_def)
  next
    case False
    with s obtain local where "known g' path = Some local" "p = filepath_Join local ''compose.yaml''"
      by auto
    with s False assms(2) show ?thesis
      by (simp add: Load_def)
  qed
qed

lemma pullComposeFiles_ok:
  assumes "pullComposeFiles x get local m ref w = (None, w2)"
  shows "os_Stat (fs w2) (resolve (cwd w2) local) = Inr Directory"
  using pullComposeFiles_success_dir [OF assms] pullComposeFiles_world [OF assms]
  by simp

text \<open>
  When \<open>Load\<close> changes the table: it has returned without error, the path had no
  entry, and the one new entry is for the path. Either the target was missing and
  materialization has made it a directory, or \<^verbatim>\<open>Stat\<close> of the target said anything
  but "missing" and \<open>Load\<close> has only asked the Resolver for the manifest.
\<close>

lemma Load_known:
  assumes "Load x g w path = (r, g', w')"
  shows "known g' = known g
         \<or> (\<exists>local. r = Ok (filepath_Join local ''compose.yaml'') \<and> known g path = None
               \<and> known g' = (known g)(path \<mapsto> local)
               \<and> (os_IsNotExist (os_Stat (fs w) (resolve (cwd w) local))
                   \<and> os_Stat (fs w') (resolve (cwd w') local) = Inr Directory
                   \<or> \<not> os_IsNotExist (os_Stat (fs w) (resolve (cwd w) local))
                   \<and> (\<exists>ref. w' = w\<lparr>fetched := fetched w @ [ref]\<rparr>)))"
  using assms
  by (auto simp: Load_def Let_def
      split: sum.splits option.splits if_splits prod.splits
      dest: pullComposeFiles_ok)

lemma ex_load_app:
  "Load ex_libs (ex_loader False) (ex_world Map.empty) ''oci://acme/app''
     = (Ok ''/cache/aa/compose.yaml'', ex_loaded, ex_loaded_world)"
  by (simp add: Load_def ociRemoteLoaderEnabled_def os_Getenv_def ex_loader_def
      NewOCIRemoteLoader_def OciPrefix_def ex_loaded_def ex_loaded_world_def
      pullComposeFiles_def ex_defs path_defs os_defs writeComposeFile_def annotation_def
      separator_def Let_def)

lemma ex_pull_chart:
  "pullComposeFiles ex_libs ex_get ''/cache/bb'' ex_chart ''acme/chart''
     (ex_world Map.empty\<lparr>fetched := fetched (ex_world Map.empty) @ [''acme/chart'']\<rparr>)
   = (Some (NotComposeArtifact ''acme/chart'' ''application/vnd.acme.chart''), ex_failed_pull)"
  by (simp add: pullComposeFiles_def ex_defs ex_failed_pull_def path_defs os_defs Let_def)

text \<open>
  C4: when \<open>Load\<close> reaches materialization (the flag is enabled, the loader is on
  line, the path is not in the table, the reference parses and resolves, the cache
  directory is known, the target directory does not exist and the manifest decodes)
  and materialization fails with any error, \<open>Load\<close> returns that error; the target
  directory and everything below it are gone from the file system; \<^verbatim>\<open>Stat\<close> of the
  target says that it does not exist; the table has no entry for the path; and a
  second \<open>Load\<close> of the path in the world the first one left runs materialization
  again, from the empty target.
\<close>

theorem C4_cleanup:
  assumes "ociRemoteLoaderEnabled (environ w) = Inr True" and "\<not> offline g"
    and "known g path = None" and "length OciPrefix \<le> length path"
    and "ParseDockerRef x (drop (length OciPrefix) path) = Inr ref"
    and "dockerCli g = Inr get" and "get ref = Inr (content, desc)"
    and "cacheDir w = Inr cache"
    and "local = filepath_Join cache (Hex x (Digest desc))"
    and "os_IsNotExist (os_Stat (fs w) (resolve (cwd w) local))"
    and "Unmarshal x content = Inr m"
    and "pullComposeFiles x get local m ref (w\<lparr>fetched := fetched w @ [ref]\<rparr>) = (Some err, w2)"
    and "w' = w2\<lparr>fs := os_RemoveAll (fs w2) (resolve (cwd w) local)\<rparr>"
  shows "Load x g w path = (Err err, g, w')
         \<and> (\<forall>q. prefix (resolve (cwd w) local) q \<longrightarrow> fs w' q = None)
         \<and> os_IsNotExist (os_Stat (fs w') (resolve (cwd w') local))
         \<and> known g path = None
         \<and> Load x g w' path
             = (case pullComposeFiles x get local m ref (w'\<lparr>fetched := fetched w' @ [ref]\<rparr>) of
                  (Some e, w3) \<Rightarrow>
                    (Err e, g, w3\<lparr>fs := os_RemoveAll (fs w3) (resolve (cwd w3) local)\<rparr>)
                | (None, w3) \<Rightarrow>
                    (Ok (filepath_Join local ''compose.yaml''),
                     g\<lparr>known := (known g)(path \<mapsto> local)\<rparr>, w3))"
proof -
  let ?p = "resolve (cwd w) local"
  let ?w1 = "w\<lparr>fetched := fetched w @ [ref]\<rparr>"
  from pullComposeFiles_world [OF assms(12)]
  have fr: "environ w2 = environ w" "cwd w2 = cwd w" "cacheDir w2 = cacheDir w"
    by simp_all
  have first: "Load x g w path = (Err err, g, w')"
    using Load_miss [OF assms(1-11)] assms(12,13) fr by simp
  have gone: "fs w' q = None" if "prefix ?p q" for q
    using that by (simp add: assms(13) os_RemoveAll_def)
  have enoent: "walk (fs w) [] ?p = Inl ENOENT"
    using assms(10) by (simp add: os_IsNotExist_def os_Stat_def)
  then have ne: "?p \<noteq> []"
    by auto
  have "walk (fs w2) [] ?p \<noteq> Inl ENOTDIR"
    using pullComposeFiles_stat [OF assms(12)] enoent by (auto simp: os_Stat_def)
  with ne have "walk (os_RemoveAll (fs w2) ([] @ ?p)) [] ?p = Inl ENOENT"
    by (rule walk_RemoveAll)
  then have stat: "os_IsNotExist (os_Stat (fs w') (resolve (cwd w') local))"
    by (simp add: assms(13) fr os_IsNotExist_def os_Stat_def)
  have second: "Load x g w' path
             = (case pullComposeFiles x get local m ref (w'\<lparr>fetched := fetched w' @ [ref]\<rparr>) of
                  (Some e, w3) \<Rightarrow>
                    (Err e, g, w3\<lparr>fs := os_RemoveAll (fs w3) (resolve (cwd w3) local)\<rparr>)
                | (None, w3) \<Rightarrow>
                    (Ok (filepath_Join local ''compose.yaml''),
                     g\<lparr>known := (known g)(path \<mapsto> local)\<rparr>, w3))"
  proof (rule Load_miss [OF _ assms(2-7) _ assms(9) stat assms(11)])
    show "ociRemoteLoaderEnabled (environ w') = Inr True"
      using assms(1) by (simp add: assms(13) fr)
    show "cacheDir w' = Inr cache"
      using assms(8) by (simp add: assms(13) fr)
  qed
  show ?thesis
    using first gone stat assms(3) second by blast
qed

theorem C4_cleanup_witness:
  "ociRemoteLoaderEnabled (environ (ex_world Map.empty)) = Inr True
   \<and> \<not> offline (ex_loader False)
   \<and> known (ex_loader False) ''oci://acme/chart'' = None
   \<and> length OciPrefix \<le> length ''oci://acme/chart''
   \<and> ParseDockerRef ex_libs (drop (length OciPrefix) ''oci://acme/chart'') = Inr ''acme/chart''
   \<and> dockerCli (ex_loader False) = Inr ex_get
   \<and> ex_get ''acme/chart'' = Inr (''{chart}'', ex_config\<lparr>Digest := ''sha256:bb''\<rparr>)
   \<and> cacheDir (ex_world Map.empty) = Inr ''/cache''
   \<and> ''/cache/bb'' = filepath_Join ''/cache'' (Hex ex_libs (Digest (ex_config\<lparr>Digest := ''sha256:bb''\<rparr>)))
   \<and> os_IsNotExist (os_Stat (fs (ex_world Map.empty)) (resolve (cwd (ex_world Map.empty)) ''/cache/bb''))
   \<and> Unmarshal ex_libs ''{chart}'' = Inr ex_chart
   \<and> pullComposeFiles ex_libs ex_get ''/cache/bb'' ex_chart ''acme/chart''
        (ex_world Map.empty\<lparr>fetched := fetched (ex_world Map.empty) @ [''acme/chart'']\<rparr>)
       = (Some (NotComposeArtifact ''acme/chart'' ''application/vnd.acme.chart''), ex_failed_pull)
   \<and> Load ex_libs (ex_loader False) (ex_world Map.empty) ''oci://acme/chart''
       = (Err (NotComposeArtifact ''acme/chart'' ''application/vnd.acme.chart''), ex_loader False,
          ex_failed_pull\<lparr>fs := os_RemoveAll (fs ex_failed_pull)
                                 (resolve (cwd (ex_world Map.empty)) ''/cache/bb'')\<rparr>)
   \<and> fs (ex_failed_pull\<lparr>fs := os_RemoveAll (fs ex_failed_pull)
                                 (resolve (cwd (ex_world Map.empty)) ''/cache/bb'')\<rparr>)
        [''cache'', ''bb''] = None
   \<and> fs (ex_failed_pull\<lparr>fs := os_RemoveAll (fs ex_failed_pull)
                                 (resolve (cwd (ex_world Map.empty)) ''/cache/bb'')\<rparr>)
        [''cache'', ''bb'', ''compose.yaml''] = None
   \<and> os_IsNotExist (os_Stat
        (fs (ex_failed_pull\<lparr>fs := os_RemoveAll (fs ex_failed_pull)
                                 (resolve (cwd (ex_world Map.empty)) ''/cache/bb'')\<rparr>))
        [''cache'', ''bb''])"
proof -
  have h1: "ociRemoteLoaderEnabled (environ (ex_world Map.empty)) = Inr True"
    by (simp add: ex_world_def ex_flag_unset)
  have h2: "\<not> offline (ex_loader False)"
    and h3: "known (ex_loader False) ''oci://acme/chart'' = None"
    and h6: "dockerCli (ex_loader False) = Inr ex_get"
    by (simp_all add: ex_loader_def NewOCIRemoteLoader_def)
  have h4: "length OciPrefix \<le> length ''oci://acme/chart''"
    by (simp add: OciPrefix_def)
  have h5: "ParseDockerRef ex_libs (drop (length OciPrefix) ''oci://acme/chart'') = Inr ''acme/chart''"
    by (simp add: OciPrefix_def ex_libs_def)
  have h7: "ex_get ''acme/chart'' = Inr (''{chart}'', ex_config\<lparr>Digest := ''sha256:bb''\<rparr>)"
    by (simp add: ex_get_def)
  have h8: "cacheDir (ex_world Map.empty) = Inr ''/cache''"
    by (simp add: ex_world_def)
  have h9: "''/cache/bb''
              = filepath_Join ''/cache'' (Hex ex_libs (Digest (ex_config\<lparr>Digest := ''sha256:bb''\<rparr>)))"
    by (simp add: ex_libs_def path_defs)
  have p: "resolve (cwd (ex_world Map.empty)) ''/cache/bb'' = [''cache'', ''bb'']"
    by (simp add: ex_world_def path_defs)
  have h10: "os_IsNotExist (os_Stat (fs (ex_world Map.empty))
               (resolve (cwd (ex_world Map.empty)) ''/cache/bb''))"
    unfolding p by (simp add: ex_world_def os_IsNotExist_def os_Stat_def)
  have h11: "Unmarshal ex_libs ''{chart}'' = Inr ex_chart"
    by (simp add: ex_libs_def)
  note h12 = ex_pull_chart
  note inst = C4_cleanup [where x = ex_libs and g = "ex_loader False" and w = "ex_world Map.empty"
      and path = "''oci://acme/chart''" and get = ex_get, OF h1 h2 h3 h4 h5 h6 h7 h8 h9 h10 h11 h12 refl]
  have pre: "prefix (resolve (cwd (ex_world Map.empty)) ''/cache/bb'') [''cache'', ''bb'']"
    "prefix (resolve (cwd (ex_world Map.empty)) ''/cache/bb'') [''cache'', ''bb'', ''compose.yaml'']"
    unfolding p by simp_all
  have c1: "Load ex_libs (ex_loader False) (ex_world Map.empty) ''oci://acme/chart''
       = (Err (NotComposeArtifact ''acme/chart'' ''application/vnd.acme.chart''), ex_loader False,
          ex_failed_pull\<lparr>fs := os_RemoveAll (fs ex_failed_pull)
                                 (resolve (cwd (ex_world Map.empty)) ''/cache/bb'')\<rparr>)"
    using inst by blast
  have c2: "fs (ex_failed_pull\<lparr>fs := os_RemoveAll (fs ex_failed_pull)
                                 (resolve (cwd (ex_world Map.empty)) ''/cache/bb'')\<rparr>)
        [''cache'', ''bb''] = None"
    and c3: "fs (ex_failed_pull\<lparr>fs := os_RemoveAll (fs ex_failed_pull)
                                 (resolve (cwd (ex_world Map.empty)) ''/cache/bb'')\<rparr>)
        [''cache'', ''bb'', ''compose.yaml''] = None"
    using inst pre by blast+
  have "cwd (ex_failed_pull\<lparr>fs := os_RemoveAll (fs ex_failed_pull)
                                 (resolve (cwd (ex_world Map.empty)) ''/cache/bb'')\<rparr>) = []"
    by (simp add: ex_failed_pull_def)
  moreover have "resolve [] ''/cache/bb'' = [''cache'', ''bb'']"
    by (simp add: path_defs)
  ultimately have c4: "os_IsNotExist (os_Stat
        (fs (ex_failed_pull\<lparr>fs := os_RemoveAll (fs ex_failed_pull)
                                 (resolve (cwd (ex_world Map.empty)) ''/cache/bb'')\<rparr>))
        [''cache'', ''bb''])"
    using inst by simp
  show ?thesis
    using h1 h2 h3 h4 h5 h6 h7 h8 h9 h10 h11 h12 c1 c2 c3 c4 by blast
qed

lemma ex_load_occupied:
  "Load ex_libs (ex_loader False) ex_occupied ''oci://acme/app''
     = (Ok ''/cache/aa/compose.yaml'', ex_loaded, ex_occupied\<lparr>fetched := [''acme/app'']\<rparr>)"
  by (simp add: Load_def ociRemoteLoaderEnabled_def os_Getenv_def ex_loader_def
      NewOCIRemoteLoader_def OciPrefix_def ex_loaded_def ex_occupied_def
      ex_defs path_defs os_defs Let_def)

lemma ex_load_no_cache:
  "Load ex_libs (ex_loader False) ex_no_cache ''oci://acme/app''
     = (Ok ''/cache/aa/compose.yaml'', ex_loaded, ex_no_cache\<lparr>fetched := [''acme/app'']\<rparr>)"
  by (simp add: Load_def ociRemoteLoaderEnabled_def os_Getenv_def ex_loader_def
      NewOCIRemoteLoader_def OciPrefix_def ex_loaded_def ex_no_cache_def
      ex_defs path_defs os_defs Let_def)

lemma ex_load_warm:
  "Load ex_libs (ex_loader False) ex_loaded_world ''oci://acme/app''
     = (Ok ''/cache/aa/compose.yaml'', ex_loaded,
        ex_loaded_world\<lparr>fetched := fetched ex_loaded_world @ [''acme/app'']\<rparr>)"
  by (simp add: Load_def ociRemoteLoaderEnabled_def os_Getenv_def ex_loader_def
      NewOCIRemoteLoader_def OciPrefix_def ex_loaded_def ex_loaded_world_def
      ex_defs path_defs os_defs Let_def)

text \<open>
  C8, as the claim states it, fails in its middle part: the table gains an entry
  whenever the error of \<^verbatim>\<open>os.Stat\<close> on the target is not "does not exist" (lines 108
  and 122), and nothing checks that a materialized directory is there. With a regular
  file at \<^verbatim>\<open>/cache/aa\<close>, and with a regular file in the place of \<^verbatim>\<open>/cache\<close> (where
  \<^verbatim>\<open>Stat\<close> fails with \<^verbatim>\<open>ENOTDIR\<close>), \<open>Load\<close> materializes nothing, writes nothing,
  returns the path of a \<^verbatim>\<open>compose.yaml\<close> that does not exist, and records the entry.
\<close>

theorem C8_memo_counterexample:
  "known (ex_loader False) ''oci://acme/app'' = None
   \<and> os_Stat (fs ex_occupied) (resolve (cwd ex_occupied) ''/cache/aa'') = Inr (File ''junk'')
   \<and> Load ex_libs (ex_loader False) ex_occupied ''oci://acme/app''
       = (Ok ''/cache/aa/compose.yaml'', ex_loaded, ex_occupied\<lparr>fetched := [''acme/app'']\<rparr>)
   \<and> known ex_loaded ''oci://acme/app'' = Some ''/cache/aa''
   \<and> os_Stat (fs (ex_occupied\<lparr>fetched := [''acme/app'']\<rparr>))
        (resolve (cwd ex_occupied) ''/cache/aa/compose.yaml'') = Inl ENOTDIR
   \<and> os_Stat (fs ex_no_cache) (resolve (cwd ex_no_cache) ''/cache/aa'') = Inl ENOTDIR
   \<and> Load ex_libs (ex_loader False) ex_no_cache ''oci://acme/app''
       = (Ok ''/cache/aa/compose.yaml'', ex_loaded, ex_no_cache\<lparr>fetched := [''acme/app'']\<rparr>)"
proof -
  have "known (ex_loader False) ''oci://acme/app'' = None
      \<and> known ex_loaded ''oci://acme/app'' = Some ''/cache/aa''"
    by (simp add: ex_loader_def NewOCIRemoteLoader_def ex_loaded_def)
  moreover have "os_Stat (fs ex_occupied) (resolve (cwd ex_occupied) ''/cache/aa'')
                   = Inr (File ''junk'')
      \<and> os_Stat (fs (ex_occupied\<lparr>fetched := [''acme/app'']\<rparr>))
           (resolve (cwd ex_occupied) ''/cache/aa/compose.yaml'') = Inl ENOTDIR"
    by (simp add: ex_occupied_def path_defs os_Stat_def)
  moreover have "os_Stat (fs ex_no_cache) (resolve (cwd ex_no_cache) ''/cache/aa'') = Inl ENOTDIR"
    by (simp add: ex_no_cache_def path_defs os_Stat_def)
  ultimately show ?thesis
    using ex_load_occupied ex_load_no_cache by blast
qed

text \<open>
  C8, amended: when \<open>Load\<close> of a path returns a local path and no error, the flag is
  still enabled in the world it leaves, and a second \<open>Load\<close> of the same path by the
  loader it leaves returns the same local path and changes neither the loader nor the
  world, in the world the first one left and in every other world where the flag is
  enabled: the Resolver is not asked and nothing is created, whatever is on disk.
  Every call of \<open>Load\<close>, whatever it returns, keeps the entries the table had. When
  it changes the table, it has returned without error, the path had no entry, and the
  one new entry is for the path; then either \<^verbatim>\<open>Stat\<close> had said that the target does
  not exist, materialization has succeeded and the target is a directory, or \<^verbatim>\<open>Stat\<close>
  had said anything else (a directory, a regular file, another error) and \<open>Load\<close> has
  done nothing but ask the Resolver for the manifest.
\<close>

theorem C8_memo:
  assumes "Load x g w path = (r, g', w')"
  shows "(\<forall>p. r = Ok p \<longrightarrow>
            ociRemoteLoaderEnabled (environ w') = Inr True
            \<and> Load x g' w' path = (Ok p, g', w')
            \<and> (\<forall>v. ociRemoteLoaderEnabled (environ v) = Inr True \<longrightarrow>
                  Load x g' v path = (Ok p, g', v)))
         \<and> (\<forall>k v. known g k = Some v \<longrightarrow> known g' k = Some v)
         \<and> (known g' \<noteq> known g \<longrightarrow>
              (\<exists>local. r = Ok (filepath_Join local ''compose.yaml'') \<and> known g path = None
                 \<and> known g' = (known g)(path \<mapsto> local)
                 \<and> (os_IsNotExist (os_Stat (fs w) (resolve (cwd w) local))
                     \<and> os_Stat (fs w') (resolve (cwd w') local) = Inr Directory
                     \<or> \<not> os_IsNotExist (os_Stat (fs w) (resolve (cwd w) local))
                     \<and> (\<exists>ref. w' = w\<lparr>fetched := fetched w @ [ref]\<rparr>))))"
proof (intro conjI allI impI)
  fix p
  assume "r = Ok p"
  with assms have "Load x g w path = (Ok p, g', w')"
    by simp
  from Load_success [OF this] show "ociRemoteLoaderEnabled (environ w') = Inr True"
    by simp
next
  fix p
  assume "r = Ok p"
  with assms have l: "Load x g w path = (Ok p, g', w')"
    by simp
  from Load_success [OF l] have "ociRemoteLoaderEnabled (environ w') = Inr True"
    by simp
  then show "Load x g' w' path = (Ok p, g', w')"
    by (rule Load_again [OF l])
next
  fix p and v :: world
  assume "r = Ok p" and "ociRemoteLoaderEnabled (environ v) = Inr True"
  with assms show "Load x g' v path = (Ok p, g', v)"
    by (simp add: Load_again)
next
  fix k v
  assume "known g k = Some v"
  with Load_known [OF assms] show "known g' k = Some v"
    by auto
next
  assume "known g' \<noteq> known g"
  with Load_known [OF assms]
  show "\<exists>local. r = Ok (filepath_Join local ''compose.yaml'') \<and> known g path = None
          \<and> known g' = (known g)(path \<mapsto> local)
          \<and> (os_IsNotExist (os_Stat (fs w) (resolve (cwd w) local))
              \<and> os_Stat (fs w') (resolve (cwd w') local) = Inr Directory
              \<or> \<not> os_IsNotExist (os_Stat (fs w) (resolve (cwd w) local))
              \<and> (\<exists>ref. w' = w\<lparr>fetched := fetched w @ [ref]\<rparr>))"
    by blast
qed

theorem C8_memo_witness:
  "Load ex_libs (ex_loader False) (ex_world Map.empty) ''oci://acme/app''
     = (Ok ''/cache/aa/compose.yaml'', ex_loaded, ex_loaded_world)
   \<and> ociRemoteLoaderEnabled (environ ex_loaded_world) = Inr True
   \<and> Load ex_libs ex_loaded ex_loaded_world ''oci://acme/app''
       = (Ok ''/cache/aa/compose.yaml'', ex_loaded, ex_loaded_world)
   \<and> ociRemoteLoaderEnabled (environ (ex_world Map.empty)) = Inr True
   \<and> Load ex_libs ex_loaded (ex_world Map.empty) ''oci://acme/app''
       = (Ok ''/cache/aa/compose.yaml'', ex_loaded, ex_world Map.empty)
   \<and> known (ex_loader False) ''oci://acme/app'' = None
   \<and> known ex_loaded \<noteq> known (ex_loader False)
   \<and> known ex_loaded ''oci://acme/app'' = Some ''/cache/aa''
   \<and> fetched ex_loaded_world = [''acme/app'', ''acme/app@sha256:01'', ''acme/app@sha256:02'']
   \<and> os_IsNotExist (os_Stat (fs (ex_world Map.empty))
        (resolve (cwd (ex_world Map.empty)) ''/cache/aa''))
   \<and> os_Stat (fs ex_loaded_world) (resolve (cwd ex_loaded_world) ''/cache/aa'') = Inr Directory
   \<and> \<not> os_IsNotExist (os_Stat (fs ex_loaded_world) (resolve (cwd ex_loaded_world) ''/cache/aa''))
   \<and> Load ex_libs (ex_loader False) ex_loaded_world ''oci://acme/app''
       = (Ok ''/cache/aa/compose.yaml'', ex_loaded,
          ex_loaded_world\<lparr>fetched := fetched ex_loaded_world @ [''acme/app'']\<rparr>)
   \<and> Load ex_libs ex_loaded
        (ex_loaded_world\<lparr>fetched := fetched ex_loaded_world @ [''acme/app'']\<rparr>) ''oci://acme/app''
       = (Ok ''/cache/aa/compose.yaml'', ex_loaded,
          ex_loaded_world\<lparr>fetched := fetched ex_loaded_world @ [''acme/app'']\<rparr>)"
proof -
  note first = ex_load_app
  note inst = C8_memo [OF first]
  note warm = C8_memo [OF ex_load_warm]
  have en: "ociRemoteLoaderEnabled (environ (ex_world Map.empty)) = Inr True"
    by (simp add: ex_world_def ex_flag_unset)
  have a: "ociRemoteLoaderEnabled (environ ex_loaded_world) = Inr True"
    and b: "Load ex_libs ex_loaded ex_loaded_world ''oci://acme/app''
       = (Ok ''/cache/aa/compose.yaml'', ex_loaded, ex_loaded_world)"
    using inst by blast+
  have c: "Load ex_libs ex_loaded (ex_world Map.empty) ''oci://acme/app''
       = (Ok ''/cache/aa/compose.yaml'', ex_loaded, ex_world Map.empty)"
    using inst en by blast
  have k: "known (ex_loader False) ''oci://acme/app'' = None
      \<and> known ex_loaded ''oci://acme/app'' = Some ''/cache/aa''"
    by (simp add: ex_loader_def NewOCIRemoteLoader_def ex_loaded_def)
  then have ne: "known ex_loaded \<noteq> known (ex_loader False)"
    by auto
  have d: "fetched ex_loaded_world = [''acme/app'', ''acme/app@sha256:01'', ''acme/app@sha256:02'']"
    by (simp add: ex_loaded_world_def)
  have before: "os_IsNotExist (os_Stat (fs (ex_world Map.empty))
                  (resolve (cwd (ex_world Map.empty)) ''/cache/aa''))"
    by (simp add: ex_world_def path_defs os_Stat_def os_IsNotExist_def)
  from inst ne obtain local where
    l: "known ex_loaded = (known (ex_loader False))(''oci://acme/app'' \<mapsto> local)"
    and alt: "os_IsNotExist (os_Stat (fs (ex_world Map.empty))
                 (resolve (cwd (ex_world Map.empty)) local))
              \<and> os_Stat (fs ex_loaded_world) (resolve (cwd ex_loaded_world) local) = Inr Directory
              \<or> \<not> os_IsNotExist (os_Stat (fs (ex_world Map.empty))
                     (resolve (cwd (ex_world Map.empty)) local))
              \<and> (\<exists>ref. ex_loaded_world
                     = ex_world Map.empty\<lparr>fetched := fetched (ex_world Map.empty) @ [ref]\<rparr>)"
    by blast
  from l have "known ex_loaded ''oci://acme/app'' = Some local"
    by simp
  with k have "local = ''/cache/aa''"
    by simp
  with alt before
  have after: "os_Stat (fs ex_loaded_world) (resolve (cwd ex_loaded_world) ''/cache/aa'')
                 = Inr Directory"
    by blast
  then have found: "\<not> os_IsNotExist (os_Stat (fs ex_loaded_world)
                       (resolve (cwd ex_loaded_world) ''/cache/aa''))"
    by (simp add: os_IsNotExist_def)
  have e: "Load ex_libs ex_loaded
        (ex_loaded_world\<lparr>fetched := fetched ex_loaded_world @ [''acme/app'']\<rparr>) ''oci://acme/app''
       = (Ok ''/cache/aa/compose.yaml'', ex_loaded,
          ex_loaded_world\<lparr>fetched := fetched ex_loaded_world @ [''acme/app'']\<rparr>)"
    using warm by blast
  show ?thesis
    using first a b en c k ne d before after found ex_load_warm e by blast
qed

end
